theory Spec2Isabelle
  imports Main
begin

section \<open>Python values used by \<open>make.py\<close>\<close>

text \<open>
  The script \<open>make.py\<close> is a sequence of calls into the Python standard library, into
  the \<open>deapexer\<close> module and into external commands. Each of its functions is embedded
  as a function on an explicit state: a file system together with the trace of every
  call that leaves the process. An exception is a value: every function returns
  \<open>Inl e\<close> where the Python raises \<open>e\<close>.
\<close>

datatype exc =
    FileNotFoundError
  | FileExistsError
  | NotADirectoryError
  | IsADirectoryError
  | OSError
  | KeyError
  | ValueError
  | InterpolationSyntaxError
  | UnboundLocalError
  | BadZipFile
  | URLError
  | ExternalError
  | SystemExit int

subsection \<open>Formatting integers\<close>

text \<open>\<open>str(n)\<close> for a natural number: its decimal digits.\<close>

fun digits :: "nat \<Rightarrow> string" where
  "digits n = (if n < 10 then [''0123456789'' ! n]
               else digits (n div 10) @ [''0123456789'' ! (n mod 10)])"

declare digits.simps [simp del]

text \<open>\<open>f"{i}"\<close> for a Python int.\<close>

definition str_int :: "int \<Rightarrow> string" where
  "str_int i = (if i < 0 then CHR ''-'' # digits (nat (- i)) else digits (nat i))"

text \<open>
  \<open>f"{i:02d}"\<close>: zero padding to width two; the sign counts for the width, so a
  negative number is never padded.
\<close>

definition fmt02d :: "int \<Rightarrow> string" where
  "fmt02d i = (if i < 0 then CHR ''-'' # digits (nat (- i))
               else if i < 10 then CHR ''0'' # digits (nat i)
               else digits (nat i))"

subsection \<open>Paths (\<open>posixpath\<close>)\<close>

text \<open>\<open>os.path.join\<close> of two parts: an absolute second part discards the first.\<close>

definition join2 :: "string \<Rightarrow> string \<Rightarrow> string" where
  "join2 a b = (if take 1 b = ''/'' then b
                else if a = [] \<or> last a = CHR ''/'' then a @ b
                else a @ ''/'' @ b)"

definition join :: "string \<Rightarrow> string list \<Rightarrow> string" where
  "join a ps = foldl join2 a ps"

text \<open>\<open>s.split('/')\<close>.\<close>

fun split_sep :: "string \<Rightarrow> string list" where
  "split_sep [] = [] # []"
| "split_sep (c # cs) =
     (if c = CHR ''/'' then [] # split_sep cs
      else (case split_sep cs of [] \<Rightarrow> [c] # [] | w # ws \<Rightarrow> (c # w) # ws))"

text \<open>\<open>'/'.join(comps)\<close>.\<close>

fun join_sep :: "string list \<Rightarrow> string" where
  "join_sep [] = []"
| "join_sep [c] = c"
| "join_sep (c # d # cs) = c @ ''/'' @ join_sep (d # cs)"

text \<open>
  The loop of \<open>os.path.normpath\<close> over the components; \<open>acc\<close> is \<open>new_comps\<close>, last
  component first.
\<close>

fun norm_comps :: "bool \<Rightarrow> string list \<Rightarrow> string list \<Rightarrow> string list" where
  "norm_comps rooted acc [] = rev acc"
| "norm_comps rooted acc (c # cs) =
     (if c = [] \<or> c = ''.'' then norm_comps rooted acc cs
      else if c \<noteq> ''..'' \<or> (\<not> rooted \<and> acc = []) \<or> take 1 acc = [''..'']
        then norm_comps rooted (c # acc) cs
      else norm_comps rooted (tl acc) cs)"

definition normpath :: "string \<Rightarrow> string" where
  "normpath p =
     (if p = [] then ''.''
      else let n = (if take 1 p = ''/''
                    then (if take 2 p = ''//'' \<and> take 3 p \<noteq> ''///'' then 2 else 1 :: nat)
                    else 0);
               q = replicate n CHR ''/'' @ join_sep (norm_comps (n \<noteq> 0) [] (split_sep p))
           in if q = [] then ''.'' else q)"

text \<open>\<open>os.path.abspath\<close>, with the current directory as a parameter.\<close>

definition abspath :: "string \<Rightarrow> string \<Rightarrow> string" where
  "abspath cwd p = (if take 1 p = ''/'' then normpath p else normpath (join2 cwd p))"

definition basename :: "string \<Rightarrow> string" where
  "basename p = rev (takeWhile (\<lambda>c. c \<noteq> CHR ''/'') (rev p))"

definition dirname :: "string \<Rightarrow> string" where
  "dirname p =
     (let head = rev (dropWhile (\<lambda>c. c \<noteq> CHR ''/'') (rev p))
      in if head \<noteq> [] \<and> head \<noteq> replicate (length head) CHR ''/''
         then rev (dropWhile (\<lambda>c. c = CHR ''/'') (rev head)) else head)"

section \<open>The world outside the script\<close>

subsection \<open>Files\<close>

text \<open>
  A file holds plain bytes or is a container whose members are known: a zip archive, a
  disk image, an APEX module. The file system lists the regular files with their
  contents and the directories. A path names a file as the string it is.
\<close>

datatype fdata = Bytes string | Container "(string \<times> fdata) list"

record filesys =
  files :: "(string \<times> fdata) list"
  dirs :: "string list"

definition isfile :: "filesys \<Rightarrow> string \<Rightarrow> bool" where
  "isfile f p = (map_of (files f) p \<noteq> None)"

definition isdir :: "filesys \<Rightarrow> string \<Rightarrow> bool" where
  "isdir f p = (p \<in> set (dirs f))"

text \<open>The proper ancestors of a path: its prefixes that end just before a separator.\<close>

fun ancestors_from :: "string \<Rightarrow> string \<Rightarrow> string list" where
  "ancestors_from pre [] = []"
| "ancestors_from pre (c # cs) =
     (if c = CHR ''/'' \<and> pre \<noteq> [] \<and> last pre \<noteq> CHR ''/''
      then pre # ancestors_from (pre @ [c]) cs
      else ancestors_from (pre @ [c]) cs)"

definition ancestors :: "string \<Rightarrow> string list" where
  "ancestors p = ancestors_from [] p"

text \<open>Is \<open>q\<close> strictly below the directory \<open>p\<close>?\<close>

definition below :: "string \<Rightarrow> string \<Rightarrow> bool" where
  "below p q = (length p < length q \<and> take (length p) q = p \<and>
                (last p = CHR ''/'' \<or> q ! length p = CHR ''/''))"

text \<open>
  \<open>os.makedirs(p, exist_ok)\<close>: creates \<open>p\<close> and the ancestors it lacks; fails when
  \<open>p\<close> exists (unless it is a directory and \<open>exist_ok\<close> holds) and when an ancestor
  is a regular file.
\<close>

definition fs_makedirs :: "bool \<Rightarrow> string \<Rightarrow> filesys \<Rightarrow> exc + filesys" where
  "fs_makedirs exist_ok p f =
     (if isdir f p then (if exist_ok then Inr f else Inl FileExistsError)
      else if isfile f p then Inl FileExistsError
      else if p = [] then Inl FileNotFoundError
      else if list_ex (isfile f) (ancestors p) then Inl NotADirectoryError
      else Inr (f\<lparr>dirs := p # filter (\<lambda>a. \<not> isdir f a) (ancestors p) @ dirs f\<rparr>))"

text \<open>\<open>os.mkdir(p)\<close>: creates one directory inside an existing one.\<close>

definition fs_mkdir :: "string \<Rightarrow> filesys \<Rightarrow> exc + filesys" where
  "fs_mkdir p f =
     (if isdir f p \<or> isfile f p then Inl FileExistsError
      else if list_ex (isfile f) (ancestors p) then Inl NotADirectoryError
      else if dirname p = [] \<or> isdir f (dirname p) then Inr (f\<lparr>dirs := p # dirs f\<rparr>)
      else Inl FileNotFoundError)"

text \<open>
  \<open>os.rmdir(p)\<close>: removes an empty directory. A regular file at \<open>p\<close> or above it
  gives \<open>NotADirectoryError\<close>.
\<close>

definition fs_rmdir :: "string \<Rightarrow> filesys \<Rightarrow> exc + filesys" where
  "fs_rmdir p f =
     (if isfile f p \<or> list_ex (isfile f) (ancestors p) then Inl NotADirectoryError
      else if \<not> isdir f p then Inl FileNotFoundError
      else if list_ex (below p) (map fst (files f) @ dirs f) then Inl OSError
      else Inr (f\<lparr>dirs := removeAll p (dirs f)\<rparr>))"

text \<open>
  Opening \<open>p\<close> for writing: \<open>p\<close> must not be a directory, no regular file may be above
  it, and the directory of \<open>p\<close> must exist (an empty directory name is the current
  directory).
\<close>

definition writable :: "filesys \<Rightarrow> string \<Rightarrow> exc option" where
  "writable f p =
     (if isdir f p then Some IsADirectoryError
      else if list_ex (isfile f) (ancestors p) then Some NotADirectoryError
      else if dirname p = [] \<or> isdir f (dirname p) then None
      else Some FileNotFoundError)"

text \<open>\<open>open(p, 'wb')\<close> followed by writing \<open>d\<close>: creates or replaces the file.\<close>

definition fs_write :: "string \<Rightarrow> fdata \<Rightarrow> filesys \<Rightarrow> exc + filesys" where
  "fs_write p d f =
     (case writable f p of
        Some e \<Rightarrow> Inl e
      | None \<Rightarrow> Inr (f\<lparr>files := (p, d) # files f\<rparr>))"

text \<open>\<open>open(p, 'ba')\<close> closed at once: creates an empty file, keeps an existing one.\<close>

definition fs_touch :: "string \<Rightarrow> filesys \<Rightarrow> exc + filesys" where
  "fs_touch p f =
     (case writable f p of
        Some e \<Rightarrow> Inl e
      | None \<Rightarrow> Inr (if isfile f p then f else f\<lparr>files := (p, Bytes []) # files f\<rparr>))"

text \<open>Opening \<open>p\<close> for reading.\<close>

definition fs_read :: "filesys \<Rightarrow> string \<Rightarrow> exc + fdata" where
  "fs_read f p =
     (case map_of (files f) p of
        Some d \<Rightarrow> Inr d
      | None \<Rightarrow> if isdir f p then Inl IsADirectoryError
                else if list_ex (isfile f) (ancestors p) then Inl NotADirectoryError
                else Inl FileNotFoundError)"

text \<open>
  \<open>shutil.copy2(src, dst)\<close>: when \<open>dst\<close> is a directory the copy goes to the file of
  the same base name inside it. The result is the path written.
\<close>

definition fs_copy2 :: "string \<Rightarrow> string \<Rightarrow> filesys \<Rightarrow> exc + (string \<times> filesys)" where
  "fs_copy2 src dst f =
     (let target = (if isdir f dst then join dst [basename src] else dst)
      in case fs_read f src of
           Inl e \<Rightarrow> Inl e
         | Inr d \<Rightarrow> (case fs_write target d f of
                       Inl e \<Rightarrow> Inl e
                     | Inr f' \<Rightarrow> Inr (target, f')))"

text \<open>Removing a directory tree, as the clean-up of \<open>tempfile.TemporaryDirectory\<close> does.\<close>

definition clear_below :: "string \<Rightarrow> filesys \<Rightarrow> filesys" where
  "clear_below p f =
     f\<lparr>files := filter (\<lambda>(q, d). \<not> below p q) (files f),
       dirs := filter (\<lambda>q. \<not> below p q) (dirs f)\<rparr>"

definition fs_rmtree :: "string \<Rightarrow> filesys \<Rightarrow> filesys" where
  "fs_rmtree p f = (clear_below p f)\<lparr>dirs := removeAll p (dirs (clear_below p f))\<rparr>"

subsection \<open>Calls that leave the process\<close>

text \<open>
  Every call that changes the file system, starts a program, uses the network or prints
  is recorded, in order, when it is made, whatever its outcome. Reading a file and
  testing for one are not recorded.
\<close>

datatype event =
    Makedirs string
  | Rmdir string
  | Touch string
  | Write string
  | Copy2 string string
  | Mkdtemp string
  | Rmtree string
  | Run "string list"
  | Urlopen string
  | Deapex string string
  | ZipExtract string string
  | Print string

record state =
  fsys :: filesys
  trace :: "event list"

text \<open>The command-line arguments after \<open>argparse\<close>.\<close>

record args =
  arg_sdk :: "string option"
  arg_abi :: string
  arg_api :: int
  arg_rev :: int
  arg_dir :: string
  arg_version :: int

text \<open>
  A properties object is the empty \<open>dict\<close> of line 85 or the section that
  \<open>configparser\<close> returns. The script only calls \<open>prop.get(key, default)\<close> on it, so
  the object is known by what that call does for each key: it finds no such key and
  returns the default, it returns the value of the key, or it raises (a section
  interpolates the value it returns: a value \<open>7%\<close> raises
  \<open>InterpolationSyntaxError\<close>).
\<close>

datatype lookup = Missing | Found string | Raises exc

type_synonym props = "string \<Rightarrow> lookup"

definition empty_dict :: props where
  "empty_dict = (\<lambda>key. Missing)"

text \<open>
  What the script does not decide is a parameter: the outcome of an external command
  (an exit status, or an exception when the command cannot be started, and its effect on
  the file system), the answer of the network, what \<open>deapexer.RunExtract\<close> unpacks,
  the section that \<open>configparser\<close> reads from a file, what the built-in \<open>int\<close> makes
  of a string, the environment variables, the current directory, the name \<open>tempfile\<close>
  picks, the directory of the script and \<open>str.format\<close>.
\<close>

record env =
  subprocess_run :: "string list \<Rightarrow> string option \<Rightarrow> filesys \<Rightarrow> (exc + int) \<times> filesys"
  urlopen :: "string \<Rightarrow> exc + fdata"
  RunExtract :: "string \<Rightarrow> string \<Rightarrow> filesys \<Rightarrow> exc option \<times> filesys"
  read_file :: "fdata \<Rightarrow> exc + props"
  builtin_int :: "string \<Rightarrow> exc + int"
  getenv :: "string \<Rightarrow> string option"
  getcwd :: string
  mkdtemp :: "filesys \<Rightarrow> string"
  script_dir :: string
  format :: "fdata \<Rightarrow> args \<Rightarrow> exc + fdata"

subsection \<open>Sequencing\<close>

type_synonym 'a io = "state \<Rightarrow> (exc + 'a) \<times> state"

definition ret :: "'a \<Rightarrow> 'a io" where
  "ret x s = (Inr x, s)"

definition throw :: "exc \<Rightarrow> 'a io" where
  "throw e s = (Inl e, s)"

definition seq :: "'a io \<Rightarrow> ('a \<Rightarrow> 'b io) \<Rightarrow> 'b io" where
  "seq m k s = (case m s of (Inl e, s') \<Rightarrow> (Inl e, s') | (Inr x, s') \<Rightarrow> k x s')"

text \<open>
  \<open>try: m finally: c\<close>: the clean-up runs on every outcome of \<open>m\<close>; an exception of
  the clean-up replaces the outcome of \<open>m\<close>.
\<close>

definition try_finally :: "'a io \<Rightarrow> unit io \<Rightarrow> 'a io" where
  "try_finally m c s =
     (case m s of (r, s1) \<Rightarrow>
        (case c s1 of (Inl e, s2) \<Rightarrow> (Inl e, s2) | (Inr u, s2) \<Rightarrow> (r, s2)))"

definition emit :: "event \<Rightarrow> state \<Rightarrow> state" where
  "emit ev s = s\<lparr>trace := trace s @ [ev]\<rparr>"

text \<open>A file-system operation as a step: it records its event, then succeeds or raises.\<close>

definition fs_step :: "event \<Rightarrow> (filesys \<Rightarrow> exc + filesys) \<Rightarrow> unit io" where
  "fs_step ev op s =
     (case op (fsys s) of
        Inl e \<Rightarrow> (Inl e, emit ev s)
      | Inr f \<Rightarrow> (Inr (), emit ev (s\<lparr>fsys := f\<rparr>)))"

definition os_makedirs :: "bool \<Rightarrow> string \<Rightarrow> unit io" where
  "os_makedirs exist_ok p = fs_step (Makedirs p) (fs_makedirs exist_ok p)"

definition os_rmdir :: "string \<Rightarrow> unit io" where
  "os_rmdir p = fs_step (Rmdir p) (fs_rmdir p)"

definition write_file :: "string \<Rightarrow> fdata \<Rightarrow> unit io" where
  "write_file p d = fs_step (Write p) (fs_write p d)"

definition shutil_copy2 :: "string \<Rightarrow> string \<Rightarrow> unit io" where
  "shutil_copy2 src dst =
     fs_step (Copy2 src dst) (\<lambda>f. case fs_copy2 src dst f of Inl e \<Rightarrow> Inl e | Inr (t, f') \<Rightarrow> Inr f')"

definition print :: "string \<Rightarrow> unit io" where
  "print msg s = (Inr (), emit (Print msg) s)"

text \<open>
  \<open>subprocess.run(argv, cwd)\<close> without \<open>check\<close>: the result carries the exit
  status; an exception is raised only when the command cannot be started.
\<close>

definition run :: "env \<Rightarrow> string list \<Rightarrow> string option \<Rightarrow> int io" where
  "run E argv cwd s =
     (case subprocess_run E argv cwd (fsys s) of
        (r, f) \<Rightarrow> (r, emit (Run argv) (s\<lparr>fsys := f\<rparr>)))"

text \<open>\<open>deapexer.RunExtract\<close> with the module \<open>apex\<close> and the destination \<open>dest\<close>.\<close>

definition deapexer_RunExtract :: "env \<Rightarrow> string \<Rightarrow> string \<Rightarrow> unit io" where
  "deapexer_RunExtract E apex dest s =
     (case RunExtract E apex dest (fsys s) of
        (r, f) \<Rightarrow> ((case r of Some e \<Rightarrow> Inl e | None \<Rightarrow> Inr ()),
                   emit (Deapex apex dest) (s\<lparr>fsys := f\<rparr>)))"

text \<open>
  \<open>with tempfile.TemporaryDirectory() as t: body\<close>: a new directory is made, and the
  whole tree is removed when the block is left, also by an exception.
\<close>

definition with_TemporaryDirectory :: "env \<Rightarrow> (string \<Rightarrow> 'a io) \<Rightarrow> 'a io" where
  "with_TemporaryDirectory E body s =
     (let t = mkdtemp E (fsys s)
      in case fs_mkdir t (fsys s) of
           Inl e \<Rightarrow> (Inl e, emit (Mkdtemp t) s)
         | Inr f \<Rightarrow>
             try_finally (body t)
               (\<lambda>s'. (Inr (), emit (Rmtree t) (s'\<lparr>fsys := fs_rmtree t (fsys s')\<rparr>)))
               (emit (Mkdtemp t) (s\<lparr>fsys := f\<rparr>)))"

text \<open>
  \<open>with urllib.request.urlopen(url) as response, open(path, 'wb') as output:
  shutil.copyfileobj(response, output)\<close>: the request comes first; the file is opened
  only when the request succeeded.
\<close>

definition download_to :: "env \<Rightarrow> string \<Rightarrow> string \<Rightarrow> unit io" where
  "download_to E url path s =
     (case urlopen E url of
        Inl e \<Rightarrow> (Inl e, emit (Urlopen url) s)
      | Inr d \<Rightarrow> write_file path d (emit (Urlopen url) s))"

text \<open>
  \<open>zip.extract(member, dst)\<close> on the archive with members \<open>ms\<close>: a missing member
  raises \<open>KeyError\<close>; otherwise the name loses its empty, \<open>.\<close> and \<open>..\<close> components,
  the member is written below \<open>dst\<close>, in directories made on the way, and the
  normalised path written is returned.
\<close>

definition zip_extract :: "(string \<times> fdata) list \<Rightarrow> string \<Rightarrow> string \<Rightarrow> string io" where
  "zip_extract ms member dst s =
     (let s0 = emit (ZipExtract member dst) s
      in case map_of ms member of
           None \<Rightarrow> (Inl KeyError, s0)
         | Some d \<Rightarrow>
             (let arcname = join_sep (filter (\<lambda>x. x \<noteq> [] \<and> x \<noteq> ''.'' \<and> x \<noteq> ''..'')
                                       (split_sep member));
                  target = normpath (join dst [arcname]);
                  up = dirname target;
                  f = fsys s0
              in case (if up \<noteq> [] \<and> \<not> isdir f up \<and> \<not> isfile f up
                       then fs_makedirs False up f else Inr f) of
                   Inl e \<Rightarrow> (Inl e, s0)
                 | Inr f1 \<Rightarrow>
                     (case fs_write target d f1 of
                        Inl e \<Rightarrow> (Inl e, s0\<lparr>fsys := f1\<rparr>)
                      | Inr f2 \<Rightarrow> (Inr target, s0\<lparr>fsys := f2\<rparr>))))"

section \<open>The functions of \<open>make.py\<close>\<close>

subsection \<open>Copying the runtime out of the image\<close>

text \<open>The loop of \<open>cpy\<close> over \<open>files\<close>.\<close>

fun cpy_loop :: "string \<Rightarrow> string \<Rightarrow> string list \<Rightarrow> unit io" where
  "cpy_loop dst src [] = ret ()"
| "cpy_loop dst src (f # fs) =
     seq (shutil_copy2 (join src [f]) dst) (\<lambda>u. cpy_loop dst src fs)"

definition cpy :: "string \<Rightarrow> string \<Rightarrow> string list \<Rightarrow> unit io" where
  "cpy dst src fs = seq (os_makedirs True dst) (\<lambda>u. cpy_loop dst src fs)"

definition copy_from_apex :: "string \<Rightarrow> string \<Rightarrow> unit io" where
  "copy_from_apex src dst =
     seq (cpy (join dst [''bin'']) (join src [''bin'']) [''linker64''])
       (\<lambda>u. cpy (join dst [''lib64'']) (join src [''lib64'', ''bionic''])
               [''libc.so'', ''libm.so'', ''libdl.so''])"

definition extract_apex_and_copy :: "env \<Rightarrow> string \<Rightarrow> string \<Rightarrow> unit io" where
  "extract_apex_and_copy E apex dst =
     with_TemporaryDirectory E
       (\<lambda>tempdir. seq (deapexer_RunExtract E apex tempdir) (\<lambda>u. copy_from_apex tempdir dst))"

definition copy_from_img :: "string \<Rightarrow> string \<Rightarrow> unit io" where
  "copy_from_img src dst =
     (let linkerconfig = join dst [''linkerconfig'']
      in seq (os_makedirs True linkerconfig)
           (\<lambda>u. fs_step (Touch (join linkerconfig [''ld.config.txt'']))
                   (fs_touch (join linkerconfig [''ld.config.txt'']))))"

definition mount_argv :: "string \<Rightarrow> string \<Rightarrow> string list" where
  "mount_argv img tempdir =
     [''sudo'', ''mount'', ''-o'', ''loop,ro,offset='' @ str_int (512 * 2048 * 3), img, tempdir]"

definition umount_argv :: "string \<Rightarrow> string list" where
  "umount_argv tempdir = [''sudo'', ''umount'', tempdir]"

text \<open>The body of the \<open>try\<close> of \<open>mount_img_and_copy\<close>, after \<open>mkdir\<close> is known.\<close>

definition mount_try :: "env \<Rightarrow> string \<Rightarrow> string \<Rightarrow> string \<Rightarrow> bool \<Rightarrow> unit io" where
  "mount_try E img dst tempdir mkdir =
     seq (if mkdir then os_makedirs False tempdir else ret ())
       (\<lambda>u. seq (run E (mount_argv img tempdir) None)
         (\<lambda>rc. seq (copy_from_img tempdir dst)
           (\<lambda>u. extract_apex_and_copy E
                   (join tempdir [''system'', ''apex'', ''com.android.runtime.apex''])
                   (join dst [''system'']))))"

text \<open>Its \<open>finally\<close>.\<close>

definition mount_finally :: "env \<Rightarrow> string \<Rightarrow> bool \<Rightarrow> unit io" where
  "mount_finally E tempdir mkdir =
     seq (run E (umount_argv tempdir) None)
       (\<lambda>rc. if mkdir then os_rmdir tempdir else ret ())"

definition mount_img_and_copy :: "env \<Rightarrow> string \<Rightarrow> string \<Rightarrow> unit io" where
  "mount_img_and_copy E img dst s =
     (let tempdir = join dst [''mount''];
          mkdir = (\<not> isdir (fsys s) tempdir)
      in try_finally (mount_try E img dst tempdir mkdir) (mount_finally E tempdir mkdir) s)"

subsection \<open>Properties and the image in the SDK\<close>

text \<open>
  The argument \<open>mod\<close> (here \<open>m\<close>) is either \<open>__builtins__\<close>, whose \<open>open\<close> reads the file system, or an open
  \<open>zipfile.ZipFile\<close>, whose \<open>open\<close> looks a member up by name and raises \<open>KeyError\<close>
  when there is none.
\<close>

datatype source = Builtins | ZipFile "(string \<times> fdata) list"

definition source_open :: "source \<Rightarrow> filesys \<Rightarrow> string \<Rightarrow> exc + fdata" where
  "source_open m f name =
     (case m of
        Builtins \<Rightarrow> fs_read f name
      | ZipFile ms \<Rightarrow> (case map_of ms name of None \<Rightarrow> Inl KeyError | Some d \<Rightarrow> Inr d))"

text \<open>
  Line 85 returns the empty \<open>dict\<close>. Only \<open>FileNotFoundError\<close> is caught, wherever
  in the \<open>try\<close> it is raised.
\<close>

definition load_source_properties ::
  "env \<Rightarrow> source \<Rightarrow> string \<Rightarrow> filesys \<Rightarrow> exc + props" where
  "load_source_properties E m dir f =
     (case (case source_open m f (join dir [''source.properties'']) of
              Inl e \<Rightarrow> Inl e
            | Inr lines \<Rightarrow> read_file E lines) of
        Inl e \<Rightarrow> if e = FileNotFoundError then Inr empty_dict else Inl e
      | Inr prop \<Rightarrow> Inr prop)"

text \<open>
  \<open>int(prop.get('Pkg.Revision', 0))\<close>, in no \<open>try\<close>: the default is the integer 0,
  a value goes to \<open>int\<close>, and what \<open>prop.get\<close> or \<open>int\<close> raises is raised.
\<close>

definition revision :: "env \<Rightarrow> props \<Rightarrow> exc + int" where
  "revision E prop =
     (case prop ''Pkg.Revision'' of
        Missing \<Rightarrow> Inr 0
      | Found v \<Rightarrow> builtin_int E v
      | Raises e \<Rightarrow> Inl e)"

definition image_dir :: "string \<Rightarrow> string \<Rightarrow> int \<Rightarrow> string" where
  "image_dir sdk abi api =
     join sdk [''system-images'', ''android-'' @ str_int api, ''google_apis'', abi]"

definition lookup_system_image ::
  "env \<Rightarrow> string \<Rightarrow> string \<Rightarrow> int \<Rightarrow> filesys \<Rightarrow> exc + (string option \<times> int)" where
  "lookup_system_image E sdk abi api f =
     (let dir = image_dir sdk abi api
      in case load_source_properties E Builtins dir f of
           Inl e \<Rightarrow> Inl e
         | Inr prop \<Rightarrow>
             (case revision E prop of
                Inl e \<Rightarrow> Inl e
              | Inr r \<Rightarrow>
                  (let img = join dir [''system.img'']
                   in Inr (if \<not> isfile f img then None else Some img, r))))"

subsection \<open>Downloading and unpacking the package\<close>

definition package_filename :: "string \<Rightarrow> int \<Rightarrow> int \<Rightarrow> string" where
  "package_filename abi api r = abi @ ''-'' @ str_int api @ ''_r'' @ fmt02d r @ ''.zip''"

definition package_url :: "string \<Rightarrow> string" where
  "package_url filename =
     ''http://dl.google.com/android/repository/sys-img/google_apis/'' @ filename"

definition download_system_package ::
  "env \<Rightarrow> string \<Rightarrow> string \<Rightarrow> int \<Rightarrow> int \<Rightarrow> string io" where
  "download_system_package E dir abi api r s =
     (let filename = package_filename abi api r;
          path = join dir [filename]
      in if \<not> isfile (fsys s) path
         then seq (download_to E (package_url filename) path) (\<lambda>u. ret path) s
         else ret path s)"

definition extract_system_package ::
  "env \<Rightarrow> string \<Rightarrow> string \<Rightarrow> string \<Rightarrow> (string option \<times> int) io" where
  "extract_system_package E package abi dst s =
     (case fs_read (fsys s) package of
        Inl e \<Rightarrow> (Inl e, s)
      | Inr (Bytes b) \<Rightarrow> (Inl BadZipFile, s)
      | Inr (Container ms) \<Rightarrow>
          (case load_source_properties E (ZipFile ms) abi (fsys s) of
             Inl e \<Rightarrow> (Inl e, s)
           | Inr prop \<Rightarrow>
               (case revision E prop of
                  Inl e \<Rightarrow> (Inl e, s)
                | Inr r \<Rightarrow>
                    seq (if r \<noteq> 0 \<and> \<not> isfile (fsys s) (join dst [abi, ''system.img''])
                         then zip_extract ms (join abi [''system.img'']) dst
                         else ret (join dst [abi, ''system.img'']))
                      (\<lambda>img s'. (Inr (if \<not> isfile (fsys s') img then None else Some img, r), s'))
                      s)))"

subsection \<open>\<open>main\<close>\<close>

text \<open>
  Lines 127 to 130: \<open>--sdk\<close>, else \<open>ANDROID_SDK_HOME\<close>, else \<open>ANDROID_SDK_ROOT\<close>;
  each test is \<open>is None\<close>.
\<close>

definition resolve_sdk :: "env \<Rightarrow> string option \<Rightarrow> string option" where
  "resolve_sdk E sdk0 =
     (let sdk1 = (if sdk0 = None then getenv E ''ANDROID_SDK_HOME'' else sdk0)
      in if sdk1 = None then getenv E ''ANDROID_SDK_ROOT'' else sdk1)"

text \<open>
  Lines 134 to 143. The local variable \<open>img\<close> is assigned only inside
  \<open>if args.sdk is not None\<close>: the result is \<open>None\<close> while \<open>img\<close> is unbound, and
  \<open>Some v\<close> once it holds the value \<open>v\<close> (a path or Python's \<open>None\<close>). The arguments
  come back with \<open>args.rev\<close> updated.
\<close>

definition sdk_lookup :: "env \<Rightarrow> args \<Rightarrow> (string option option \<times> args) io" where
  "sdk_lookup E a s =
     (case arg_sdk a of
        None \<Rightarrow> (Inr (None, a), s)
      | Some sdk \<Rightarrow>
          (case lookup_system_image E sdk (arg_abi a) (arg_api a) (fsys s) of
             Inl e \<Rightarrow> (Inl e, s)
           | Inr (img, r) \<Rightarrow>
               if r = 0 \<or> img = None
               then (Inr (Some None, a),
                     emit (Print (''No system image '' @ arg_abi a @ '' android-''
                                  @ str_int (arg_api a) @ '' in SDK'')) s)
               else if arg_rev a \<noteq> 0 \<and> arg_rev a \<noteq> r
               then (Inr (Some None, a),
                     emit (Print (''Required system image revision is '' @ str_int (arg_rev a)
                                  @ '' but '' @ str_int r @ '' in SDK'')) s)
               else (Inr (Some img, a\<lparr>arg_rev := r\<rparr>), s)))"

text \<open>Lines 151 to 158: download, extract, and check what was extracted.\<close>

definition download_and_extract :: "env \<Rightarrow> args \<Rightarrow> string \<Rightarrow> string io" where
  "download_and_extract E a ver =
     seq (print ''Downloading package...'')
       (\<lambda>u. seq (download_system_package E (arg_dir a) (arg_abi a) (arg_api a) (arg_rev a))
         (\<lambda>package. seq (print ''Extracting package...'')
           (\<lambda>u. seq (extract_system_package E package (arg_abi a)
                        (join (arg_dir a) [''android-'' @ ver]))
             (\<lambda>(img, r).
                case img of
                  Some p \<Rightarrow>
                    if arg_rev a \<noteq> r
                    then seq (print ''Download/Extract system package failed'')
                           (\<lambda>u. throw (SystemExit 1))
                    else ret p
                | None \<Rightarrow>
                    seq (print ''Download/Extract system package failed'')
                      (\<lambda>u. throw (SystemExit 1))))))"

text \<open>Lines 168 and 169 for one template \<open>f\<close>.\<close>

definition render_template :: "env \<Rightarrow> args \<Rightarrow> string \<Rightarrow> string \<Rightarrow> unit io" where
  "render_template E a dst f s =
     (case fs_read (fsys s) (join (script_dir E) [f]) of
        Inl e \<Rightarrow> (Inl e, s)
      | Inr t \<Rightarrow>
          (case format E t a of
             Inl e \<Rightarrow> (Inl e, s)
           | Inr d \<Rightarrow> write_file (join dst [f]) d s))"

text \<open>Lines 166 to 177.\<close>

definition generate_package :: "env \<Rightarrow> args \<Rightarrow> string \<Rightarrow> unit io" where
  "generate_package E a dst =
     seq (print ''Generating NuGet package...'')
       (\<lambda>u. seq (render_template E a dst ''README.md'')
         (\<lambda>u. seq (render_template E a dst ''android-exe-launcher.nuspec'')
           (\<lambda>u s. let nuget = join (arg_dir a) [''nuget.exe'']
                   in seq (if \<not> isfile (fsys s) nuget
                           then download_to E
                                  ''https://dist.nuget.org/win-x86-commandline/latest/nuget.exe''
                                  nuget
                           else ret ())
                        (\<lambda>u. seq (run E [''wine64'', nuget, ''pack''] (Some dst))
                                (\<lambda>rc. ret ())) s)))"

text \<open>
  \<open>main\<close> on parsed arguments. Reading \<open>img\<close> at line 145 while it is unbound raises
  \<open>UnboundLocalError\<close>; \<open>sys.exit(1)\<close> raises \<open>SystemExit\<close>.
\<close>

definition main :: "env \<Rightarrow> args \<Rightarrow> unit io" where
  "main E a0 =
     seq (sdk_lookup E
            (a0\<lparr>arg_sdk := resolve_sdk E (arg_sdk a0),
                arg_dir := abspath (getcwd E) (arg_dir a0)\<rparr>))
       (\<lambda>(bound, a).
          case bound of
            None \<Rightarrow> throw UnboundLocalError
          | Some img \<Rightarrow>
              if img = None \<and> arg_rev a = 0
              then seq (print ''Please provide system image revision number to download'')
                     (\<lambda>u. throw (SystemExit 1))
              else
                (let ver = str_int (arg_api a) @ ''_r'' @ fmt02d (arg_rev a);
                     dst = join (arg_dir a) [''android-'' @ ver, arg_abi a]
                 in seq (case img of
                           None \<Rightarrow> download_and_extract E a ver
                         | Some p \<Rightarrow> ret p)
                      (\<lambda>p. seq (print ''Mounting image and copying...'')
                        (\<lambda>u. seq (mount_img_and_copy E p dst)
                          (\<lambda>u. seq (print (''Successfully copied to '' @ dst))
                            (\<lambda>u. if arg_version a \<ge> 0 then generate_package E a dst
                                  else ret ()))))))"

section \<open>Notions for the statements\<close>

text \<open>
  The machine \<open>E\<close> with every exit status replaced by \<open>c\<close>: the commands start or fail
  to start as before and change the file system as before.
\<close>

definition with_status :: "int \<Rightarrow> env \<Rightarrow> env" where
  "with_status c E =
     E\<lparr>subprocess_run :=
         (\<lambda>argv cwd f. case subprocess_run E argv cwd f of
                          (Inl e, f') \<Rightarrow> (Inl e, f')
                        | (Inr rc, f') \<Rightarrow> (Inr c, f'))\<rparr>"

text \<open>
  Two ways to speak of the trace of a step: it only adds events to the trace, and,
  started in \<open>s\<close>, the events it adds begin with \<open>evs\<close>.
\<close>

definition extends :: "'a io \<Rightarrow> bool" where
  "extends m = (\<forall>s. \<exists>evs. trace (snd (m s)) = trace s @ evs)"

definition starts :: "'a io \<Rightarrow> state \<Rightarrow> event list \<Rightarrow> bool" where
  "starts m s evs = (\<exists>post. trace (snd (m s)) = trace s @ evs @ post)"

text \<open>The content of the file at a path, if there is one.\<close>

definition content :: "filesys \<Rightarrow> string \<Rightarrow> fdata option" where
  "content f p = map_of (files f) p"

section \<open>A sample machine\<close>

text \<open>
  One concrete environment, to run the functions on: \<open>sudo mount\<close> of a container file
  makes its members appear below the mount point, \<open>sudo umount\<close> makes everything below
  it disappear, \<open>deapexer\<close> unpacks a container file into the destination,
  \<open>configparser\<close> reads \<open>Pkg.Revision=<text>\<close>, \<open>int\<close> reads decimal literals,
  the network has nothing to offer, no environment variable is set.
\<close>

fun place :: "string \<Rightarrow> (string \<times> fdata) list \<Rightarrow> (string \<times> fdata) list" where
  "place root [] = []"
| "place root ((n, d) # ms) = (join root [n], d) # place root ms"

fun member_dirs :: "string \<Rightarrow> (string \<times> fdata) list \<Rightarrow> string list" where
  "member_dirs root [] = []"
| "member_dirs root ((n, d) # ms) =
     filter (below root) (ancestors (join root [n])) @ member_dirs root ms"

definition unpack :: "string \<Rightarrow> (string \<times> fdata) list \<Rightarrow> filesys \<Rightarrow> filesys" where
  "unpack root ms f =
     f\<lparr>files := place root ms @ files f, dirs := member_dirs root ms @ dirs f\<rparr>"

definition sample_run :: "string list \<Rightarrow> string option \<Rightarrow> filesys \<Rightarrow> (exc + int) \<times> filesys" where
  "sample_run argv cwd f =
     (if take 2 argv = [''sudo'', ''mount''] \<and> length argv = 6
      then (case map_of (files f) (argv ! 4) of
              Some (Container ms) \<Rightarrow>
                if isdir f (argv ! 5) then (Inr 0, unpack (argv ! 5) ms f) else (Inr 32, f)
            | Some (Bytes b) \<Rightarrow> (Inr 32, f)
            | None \<Rightarrow> (Inr 32, f))
      else if take 2 argv = [''sudo'', ''umount''] \<and> length argv = 3
      then (if list_ex (below (argv ! 2)) (map fst (files f) @ dirs f)
            then (Inr 0, clear_below (argv ! 2) f)
            else (Inr 32, f))
      else (Inr 0, f))"

definition sample_RunExtract :: "string \<Rightarrow> string \<Rightarrow> filesys \<Rightarrow> exc option \<times> filesys" where
  "sample_RunExtract apex dest f =
     (case map_of (files f) apex of
        Some (Container ms) \<Rightarrow> (None, unpack dest ms f)
      | Some (Bytes b) \<Rightarrow> (Some ExternalError, f)
      | None \<Rightarrow> (Some ExternalError, f))"

text \<open>
  The sample \<open>int\<close>, for text whose characters are code points below 256, as CPython
  3.11 does it: white space at both ends is dropped (tab to carriage return, space,
  and the two white-space characters above 127, next line and no-break space), one sign
  is allowed, the rest is a non-empty run of decimal digits in which single underscores
  may separate digits, and more than 4300 digits are refused. Anything else raises
  \<open>ValueError\<close>.
\<close>

definition int_space :: "char \<Rightarrow> bool" where
  "int_space c = (c \<in> set [CHR 0x09, CHR 0x0A, CHR 0x0B, CHR 0x0C, CHR 0x0D, CHR '' '',
                            CHR 0x85, CHR 0xA0])"

definition is_digit :: "char \<Rightarrow> bool" where
  "is_digit c = (c \<in> set ''0123456789'')"

definition digit_val :: "char \<Rightarrow> nat" where
  "digit_val c = of_char c - 48"

text \<open>
  The digits of a literal, from the left: \<open>acc\<close> is the value read so far and
  \<open>after_digit\<close> tells whether the previous character was a digit (an underscore must
  follow a digit and be followed by one).
\<close>

fun parse_digits :: "nat \<Rightarrow> bool \<Rightarrow> string \<Rightarrow> nat option" where
  "parse_digits acc after_digit [] = (if after_digit then Some acc else None)"
| "parse_digits acc after_digit (c # cs) =
     (if is_digit c then parse_digits (acc * 10 + digit_val c) True cs
      else if c = CHR ''_'' \<and> after_digit then parse_digits acc False cs
      else None)"

definition sample_int :: "string \<Rightarrow> exc + int" where
  "sample_int s =
     (let t = rev (dropWhile int_space (rev (dropWhile int_space s)));
          neg = (take 1 t = ''-'');
          body = (if take 1 t = ''-'' \<or> take 1 t = ''+'' then drop 1 t else t)
      in if length (filter is_digit body) > 4300 then Inl ValueError
         else case parse_digits 0 False body of
                None \<Rightarrow> Inl ValueError
              | Some n \<Rightarrow> Inr (if neg then - int n else int n))"

text \<open>
  The sample \<open>configparser\<close> reads two kinds of file: the empty file, and the single
  line \<open>Pkg.Revision=<text>\<close>, with or without a line feed at its end, whose text
  has no \<open>%\<close> (so that nothing is interpolated) and no other line break; the value is
  the text without the white space of \<open>str.strip\<close> at its ends. Every other file is
  beyond the sample reader, which gives up on it.
\<close>

definition str_space :: "char \<Rightarrow> bool" where
  "str_space c = (c \<in> set [CHR 0x09, CHR 0x0A, CHR 0x0B, CHR 0x0C, CHR 0x0D,
                            CHR 0x1C, CHR 0x1D, CHR 0x1E, CHR 0x1F, CHR '' '',
                            CHR 0x85, CHR 0xA0])"

definition strip :: "string \<Rightarrow> string" where
  "strip s = rev (dropWhile str_space (rev (dropWhile str_space s)))"

definition sample_read_file :: "fdata \<Rightarrow> exc + props" where
  "sample_read_file d =
     (case d of
        Bytes b \<Rightarrow>
          (let line = (if b \<noteq> [] \<and> last b = CHR 0x0A then butlast b else b)
           in if b = [] then Inr empty_dict
              else if take 13 line = ''Pkg.Revision='' \<and> CHR ''%'' \<notin> set line
                      \<and> CHR 0x0A \<notin> set line \<and> CHR 0x0D \<notin> set line
              then Inr (empty_dict(''Pkg.Revision'' := Found (strip (drop 13 line))))
              else Inl ExternalError)
      | Container ms \<Rightarrow> Inl ExternalError)"

definition sample_env :: env where
  "sample_env =
     \<lparr>subprocess_run = sample_run,
      urlopen = (\<lambda>url. Inl URLError),
      RunExtract = sample_RunExtract,
      read_file = sample_read_file,
      builtin_int = sample_int,
      getenv = (\<lambda>name. None),
      getcwd = ''/work'',
      mkdtemp = (\<lambda>f. ''/tmp/tmp0''),
      script_dir = ''/repo'',
      format = (\<lambda>t a. Inr t)\<rparr>"

text \<open>A machine whose network answers every request with a small archive.\<close>

definition online_env :: env where
  "online_env = sample_env\<lparr>urlopen := (\<lambda>url. Inr (Container [(''arm64-v8a/system.img'', Bytes ''raw'')]))\<rparr>"

text \<open>A machine on which \<open>sudo\<close> is not installed: no command can be started.\<close>

definition no_sudo_env :: env where
  "no_sudo_env = sample_env\<lparr>subprocess_run := (\<lambda>argv cwd f. (Inl FileNotFoundError, f))\<rparr>"

text \<open>The runtime module, a system image that holds it, and the package of the image.\<close>

definition sample_apex :: fdata where
  "sample_apex =
     Container [(''bin/linker64'', Bytes ''L''),
                (''lib64/bionic/libc.so'', Bytes ''C''),
                (''lib64/bionic/libm.so'', Bytes ''M''),
                (''lib64/bionic/libdl.so'', Bytes ''D'')]"

definition sample_img :: fdata where
  "sample_img = Container [(''system/apex/com.android.runtime.apex'', sample_apex)]"

definition sample_fs :: filesys where
  "sample_fs =
     \<lparr>files = [(''/img/system.img'', sample_img)],
      dirs = [''/'', ''/tmp'', ''/img'', ''/out'']\<rparr>"

definition sample_state :: state where
  "sample_state = \<lparr>fsys = sample_fs, trace = []\<rparr>"

text \<open>Scenario A of the specification: \<open>--api 30 --rev 5 --abi arm64-v8a --dir ./out\<close>.\<close>

definition scenario_A :: args where
  "scenario_A =
     \<lparr>arg_sdk = None, arg_abi = ''arm64-v8a'', arg_api = 30, arg_rev = 5,
      arg_dir = ''./out'', arg_version = 1\<rparr>"

text \<open>
  A cached package whose properties give revision 0, once beside a \<open>system.img\<close> left
  at the destination by an earlier run, once without it.
\<close>

definition rev0_package :: fdata where
  "rev0_package =
     Container [(''arm64-v8a/source.properties'', Bytes ''Pkg.Revision=0''),
                (''arm64-v8a/system.img'', sample_img)]"

definition stale_state :: state where
  "stale_state =
     \<lparr>fsys = \<lparr>files = [(''/out/arm64-v8a-30_r05.zip'', rev0_package),
                        (''/out/android-30_r05/arm64-v8a/system.img'', Bytes ''old'')],
               dirs = [''/'', ''/out'', ''/out/android-30_r05'',
                       ''/out/android-30_r05/arm64-v8a'']\<rparr>,
      trace = []\<rparr>"

definition cached_state :: state where
  "cached_state =
     \<lparr>fsys = \<lparr>files = [(''/out/arm64-v8a-30_r05.zip'', rev0_package)],
               dirs = [''/'', ''/out'']\<rparr>,
      trace = []\<rparr>"

text \<open>An SDK whose image directory has properties with revision 7 and no image.\<close>

definition sdk_fs :: filesys where
  "sdk_fs =
     \<lparr>files = [(''/sdk/system-images/android-30/google_apis/arm64-v8a/source.properties'',
                 Bytes ''Pkg.Revision=7'')],
      dirs = [''/'', ''/sdk'', ''/sdk/system-images'', ''/sdk/system-images/android-30'',
              ''/sdk/system-images/android-30/google_apis'',
              ''/sdk/system-images/android-30/google_apis/arm64-v8a'']\<rparr>"

text \<open>
  A runtime module that lacks \<open>libm.so\<close>, in an image of its own; and an image that
  \<open>mount\<close> cannot mount.
\<close>

definition broken_apex :: fdata where
  "broken_apex =
     Container [(''bin/linker64'', Bytes ''L''),
                (''lib64/bionic/libc.so'', Bytes ''C''),
                (''lib64/bionic/libdl.so'', Bytes ''D'')]"

definition broken_state :: state where
  "broken_state =
     \<lparr>fsys = \<lparr>files = [(''/img/system.img'',
                         Container [(''system/apex/com.android.runtime.apex'', broken_apex)])],
               dirs = [''/'', ''/tmp'', ''/img'', ''/out'']\<rparr>,
      trace = []\<rparr>"

definition unmountable_state :: state where
  "unmountable_state =
     \<lparr>fsys = \<lparr>files = [(''/img/system.img'', Bytes ''raw'')],
               dirs = [''/'', ''/tmp'', ''/img'', ''/out'']\<rparr>,
      trace = []\<rparr>"

section \<open>Properties\<close>

subsection \<open>Integers and paths\<close>

lemma digit_char: "n < 10 \<Longrightarrow> ''0123456789'' ! n \<in> set ''0123456789''"
  by (rule nth_mem) simp

lemma digits_chars: "set (digits n) \<subseteq> set ''0123456789''"
proof (induction n rule: digits.induct)
  case (1 n)
  show ?case
  proof (cases "n < 10")
    case True
    then show ?thesis using digit_char [of n] by (subst digits.simps) simp
  next
    case False
    then have "set (digits (n div 10)) \<subseteq> set ''0123456789''" using "1" by simp
    moreover have "''0123456789'' ! (n mod 10) \<in> set ''0123456789''"
      by (rule digit_char) simp
    ultimately show ?thesis using False by (subst digits.simps) simp
  qed
qed

lemma digits_nonempty: "digits n \<noteq> []"
  by (subst digits.simps) simp

lemma str_int_last: "last (str_int i) \<noteq> CHR ''/''"
proof -
  have "last (digits n) \<in> set ''0123456789''" for n
    using digits_chars [of n] digits_nonempty [of n] last_in_set by blast
  moreover have "CHR ''/'' \<notin> set ''0123456789''" by simp
  ultimately have "last (digits n) \<noteq> CHR ''/''" for n by metis
  then show ?thesis by (simp add: str_int_def digits_nonempty)
qed

text \<open>
  With an SDK root that does not end in a separator and an ABI that does not start with
  one, the image directory is \<open><sdk>/system-images/android-<api>/google_apis/<abi>\<close>.
\<close>

lemma image_dir_plain:
  "sdk \<noteq> [] \<Longrightarrow> last sdk \<noteq> CHR ''/'' \<Longrightarrow> take 1 abi \<noteq> ''/'' \<Longrightarrow>
   image_dir sdk abi api = sdk @ ''/system-images/android-'' @ str_int api @ ''/google_apis/'' @ abi"
  by (simp add: image_dir_def join_def join2_def str_int_last)

subsection \<open>The properties reader\<close>

text \<open>
  For a directory the reader does return the empty \<open>dict\<close> when \<open>source.properties\<close>
  is not there: \<open>open\<close> raises \<open>FileNotFoundError\<close>, which is caught.
\<close>

lemma directory_missing_properties:
  "fs_read f (join dir [''source.properties'']) = Inl FileNotFoundError \<Longrightarrow>
   load_source_properties E Builtins dir f = Inr empty_dict"
  by (simp add: load_source_properties_def source_open_def)

text \<open>
  Claim C3. The claim: for a directory and for an archive alike, a missing
  \<open>source.properties\<close> gives the empty mapping and no error. For an archive the code
  does otherwise: \<open>ZipFile.open\<close> raises \<open>KeyError\<close> for a missing member, the
  \<open>except FileNotFoundError\<close> does not catch it, and the reader raises \<open>KeyError\<close>.
\<close>

theorem C3_archive_missing_properties:
  "map_of ms (join dir [''source.properties'']) = None \<Longrightarrow>
   load_source_properties E (ZipFile ms) dir f = Inl KeyError"
  by (simp add: load_source_properties_def source_open_def)

theorem C3_archive_missing_properties_witness:
  "map_of [(''arm64-v8a/system.img'', sample_img)] (join ''arm64-v8a'' [''source.properties'']) = None
   \<and> load_source_properties sample_env (ZipFile [(''arm64-v8a/system.img'', sample_img)])
        ''arm64-v8a'' sample_fs = Inl KeyError"
  using C3_archive_missing_properties
          [of "[(''arm64-v8a/system.img'', sample_img)]" "''arm64-v8a''" sample_env sample_fs]
  by (simp add: join_def join2_def)

subsection \<open>The revision\<close>

text \<open>
  Claim C8, as the specification has it, fails: a value that is not an integer does not
  yield 0. Here the value is \<open>abc\<close> and \<open>int\<close> raises \<open>ValueError\<close>.
\<close>

theorem C8_malformed_revision_counterexample:
  "revision sample_env (empty_dict(''Pkg.Revision'' := Found ''abc'')) = Inl ValueError"
  by (simp add: revision_def sample_env_def sample_int_def int_space_def is_digit_def)

text \<open>
  Claim C8, amended: for every properties object and whatever \<open>int\<close> accepts, the
  revision is 0 when the key is absent; when the key is present the revision is what
  \<open>int\<close> makes of its value, so that every malformed value, one that \<open>int\<close> refuses
  with \<open>ValueError\<close>, raises \<open>ValueError\<close> and never yields the default; and an error
  that \<open>prop.get\<close> raises for the key is raised as it is.
\<close>

theorem C8_revision_defaults_only_when_absent:
  "(prop ''Pkg.Revision'' = Missing \<longrightarrow> revision E prop = Inr 0) \<and>
   (\<forall>v. prop ''Pkg.Revision'' = Found v \<longrightarrow> revision E prop = builtin_int E v) \<and>
   (\<forall>v. prop ''Pkg.Revision'' = Found v \<and> builtin_int E v = Inl ValueError
        \<longrightarrow> revision E prop = Inl ValueError) \<and>
   (\<forall>e. prop ''Pkg.Revision'' = Raises e \<longrightarrow> revision E prop = Inl e)"
  by (simp add: revision_def)

lemma sample_int_values:
  "sample_int ''r7'' = Inl ValueError"
  "sample_int '''' = Inl ValueError"
  "sample_int ''1 2'' = Inl ValueError"
  "sample_int ''--1'' = Inl ValueError"
  "sample_int '' 7 '' = Inr 7"
  "sample_int ''-1_0'' = Inr (- 10)"
  "sample_int [CHR 0xA0, CHR ''7''] = Inr 7"
  "sample_int [CHR 0x1C, CHR ''7''] = Inl ValueError"
  by (simp_all add: sample_int_def int_space_def is_digit_def digit_val_def)

theorem C8_revision_defaults_only_when_absent_witness:
  "revision sample_env empty_dict = Inr 0
   \<and> revision sample_env (empty_dict(''Pkg.Revision'' := Found '' 7 '')) = Inr 7
   \<and> revision sample_env (empty_dict(''Pkg.Revision'' := Found '''')) = Inl ValueError
   \<and> revision sample_env (empty_dict(''Pkg.Revision'' := Found ''r7'')) = Inl ValueError
   \<and> revision sample_env (empty_dict(''Pkg.Revision'' := Found ''1 2'')) = Inl ValueError
   \<and> revision sample_env (empty_dict(''Pkg.Revision'' := Found ''--1'')) = Inl ValueError
   \<and> revision sample_env (empty_dict(''Pkg.Revision'' := Raises InterpolationSyntaxError))
       = Inl InterpolationSyntaxError"
proof -
  have i: "builtin_int sample_env = sample_int" by (simp add: sample_env_def)
  have m: "empty_dict ''Pkg.Revision'' = Missing" by (simp add: empty_dict_def)
  show ?thesis
    using C8_revision_defaults_only_when_absent [of empty_dict sample_env]
      C8_revision_defaults_only_when_absent
        [of "empty_dict(''Pkg.Revision'' := Found '' 7 '')" sample_env]
      C8_revision_defaults_only_when_absent
        [of "empty_dict(''Pkg.Revision'' := Found '''')" sample_env]
      C8_revision_defaults_only_when_absent
        [of "empty_dict(''Pkg.Revision'' := Found ''r7'')" sample_env]
      C8_revision_defaults_only_when_absent
        [of "empty_dict(''Pkg.Revision'' := Found ''1 2'')" sample_env]
      C8_revision_defaults_only_when_absent
        [of "empty_dict(''Pkg.Revision'' := Found ''--1'')" sample_env]
      C8_revision_defaults_only_when_absent
        [of "empty_dict(''Pkg.Revision'' := Raises InterpolationSyntaxError)" sample_env]
    by (simp add: i m sample_int_values)
qed

subsection \<open>The image in the SDK\<close>

text \<open>
  Claim C6: the locator reads the properties of
  \<open><sdk>/system-images/android-<api>/google_apis/<abi>\<close> (the directory \<open>image_dir\<close>,
  see \<open>image_dir_plain\<close>), and whenever \<open>system.img\<close> is not a file there it returns
  no image together with the revision that these properties give, also a nonzero one.
\<close>

theorem C6_image_absent:
  "\<not> isfile f (join (image_dir sdk abi api) [''system.img'']) \<Longrightarrow>
   load_source_properties E Builtins (image_dir sdk abi api) f = Inr prop \<Longrightarrow>
   revision E prop = Inr r \<Longrightarrow>
   lookup_system_image E sdk abi api f = Inr (None, r)"
  by (simp add: lookup_system_image_def)

theorem C6_image_absent_witness:
  "image_dir ''/sdk'' ''arm64-v8a'' 30 = ''/sdk/system-images/android-30/google_apis/arm64-v8a''
   \<and> \<not> isfile sdk_fs (join (image_dir ''/sdk'' ''arm64-v8a'' 30) [''system.img''])
   \<and> load_source_properties sample_env Builtins (image_dir ''/sdk'' ''arm64-v8a'' 30) sdk_fs
       = Inr (empty_dict(''Pkg.Revision'' := Found ''7''))
   \<and> revision sample_env (empty_dict(''Pkg.Revision'' := Found ''7'')) = Inr 7
   \<and> lookup_system_image sample_env ''/sdk'' ''arm64-v8a'' 30 sdk_fs = Inr (None, 7)"
proof -
  have d: "image_dir ''/sdk'' ''arm64-v8a'' 30 = ''/sdk/system-images/android-30/google_apis/arm64-v8a''"
    by (simp add: image_dir_def join_def join2_def str_int_def digits.simps)
  have a: "\<not> isfile sdk_fs (join (image_dir ''/sdk'' ''arm64-v8a'' 30) [''system.img''])"
    by (simp add: d join_def join2_def isfile_def sdk_fs_def)
  have p: "load_source_properties sample_env Builtins (image_dir ''/sdk'' ''arm64-v8a'' 30) sdk_fs
             = Inr (empty_dict(''Pkg.Revision'' := Found ''7''))"
    by (simp add: d load_source_properties_def source_open_def join_def join2_def fs_read_def
        sdk_fs_def sample_env_def sample_read_file_def strip_def str_space_def)
  have r: "revision sample_env (empty_dict(''Pkg.Revision'' := Found ''7'')) = Inr 7"
    by (simp add: revision_def sample_env_def sample_int_def int_space_def is_digit_def
        digit_val_def)
  show ?thesis using C6_image_absent [OF a p r] d a p r by simp
qed

subsection \<open>The package fetcher\<close>

lemma isfile_after_write: "fs_write p d f = Inr f' \<Longrightarrow> isfile f' p"
  by (auto simp: fs_write_def isfile_def split: option.splits)

lemma download_to_isfile:
  "download_to E url path s = (Inr u, s') \<Longrightarrow> isfile (fsys s') path"
  by (auto simp: download_to_def write_file_def fs_step_def emit_def
      split: sum.splits dest: isfile_after_write)

text \<open>
  Claim C7: when the file \<open><abi>-<api>_r<revision, two digits>.zip\<close> is in the output
  directory, the fetcher returns its path and leaves the state as it is, the trace with
  it: no request is made. A call that follows a successful call finds the file, so it
  returns the same path and makes no request, whatever the network would answer.
\<close>

theorem C7_download_cached:
  "(isfile (fsys s) (join dir [package_filename abi api r]) \<longrightarrow>
      download_system_package E dir abi api r s = (Inr (join dir [package_filename abi api r]), s)) \<and>
   (download_system_package E dir abi api r s = (Inr p, s1) \<longrightarrow>
      download_system_package E' dir abi api r s1 = (Inr p, s1))"
  by (auto simp: download_system_package_def Let_def ret_def seq_def
      split: if_splits sum.splits prod.splits dest: download_to_isfile)

theorem C7_download_cached_witness:
  "package_filename ''arm64-v8a'' 30 5 = ''arm64-v8a-30_r05.zip''
   \<and> isfile (fsys cached_state) (join ''/out'' [package_filename ''arm64-v8a'' 30 5])
   \<and> download_system_package sample_env ''/out'' ''arm64-v8a'' 30 5 cached_state
       = (Inr ''/out/arm64-v8a-30_r05.zip'', cached_state)
   \<and> download_system_package online_env ''/out'' ''arm64-v8a'' 30 5 sample_state
       = (Inr ''/out/arm64-v8a-30_r05.zip'',
          \<lparr>fsys = sample_fs\<lparr>files := (''/out/arm64-v8a-30_r05.zip'',
                                          Container [(''arm64-v8a/system.img'', Bytes ''raw'')])
                                         # files sample_fs\<rparr>,
           trace = [Urlopen (package_url ''arm64-v8a-30_r05.zip''),
                    Write ''/out/arm64-v8a-30_r05.zip'']\<rparr>)
   \<and> download_system_package sample_env ''/out'' ''arm64-v8a'' 30 5
        \<lparr>fsys = sample_fs\<lparr>files := (''/out/arm64-v8a-30_r05.zip'',
                                        Container [(''arm64-v8a/system.img'', Bytes ''raw'')])
                                       # files sample_fs\<rparr>,
         trace = [Urlopen (package_url ''arm64-v8a-30_r05.zip''),
                  Write ''/out/arm64-v8a-30_r05.zip'']\<rparr>
       = (Inr ''/out/arm64-v8a-30_r05.zip'',
          \<lparr>fsys = sample_fs\<lparr>files := (''/out/arm64-v8a-30_r05.zip'',
                                          Container [(''arm64-v8a/system.img'', Bytes ''raw'')])
                                         # files sample_fs\<rparr>,
           trace = [Urlopen (package_url ''arm64-v8a-30_r05.zip''),
                    Write ''/out/arm64-v8a-30_r05.zip'']\<rparr>)"
proof -
  let ?s1 = "\<lparr>fsys = sample_fs\<lparr>files := (''/out/arm64-v8a-30_r05.zip'',
                                          Container [(''arm64-v8a/system.img'', Bytes ''raw'')])
                                         # files sample_fs\<rparr>,
              trace = [Urlopen (package_url ''arm64-v8a-30_r05.zip''),
                       Write ''/out/arm64-v8a-30_r05.zip'']\<rparr>"
  have n: "package_filename ''arm64-v8a'' 30 5 = ''arm64-v8a-30_r05.zip''"
    by (simp add: package_filename_def str_int_def fmt02d_def digits.simps)
  have a: "isfile (fsys cached_state) (join ''/out'' [package_filename ''arm64-v8a'' 30 5])"
    by (simp add: n join_def join2_def isfile_def cached_state_def)
  have j: "join ''/out'' [''arm64-v8a-30_r05.zip''] = ''/out/arm64-v8a-30_r05.zip''"
    by (simp add: join_def join2_def)
  have first: "download_system_package online_env ''/out'' ''arm64-v8a'' 30 5 sample_state
                 = (Inr ''/out/arm64-v8a-30_r05.zip'', ?s1)"
    by (simp add: download_system_package_def n j Let_def isfile_def seq_def ret_def
        download_to_def write_file_def fs_step_def fs_write_def writable_def dirname_def
        ancestors_def isdir_def emit_def online_env_def sample_env_def sample_state_def sample_fs_def)
  have c1: "download_system_package sample_env ''/out'' ''arm64-v8a'' 30 5 cached_state
              = (Inr (join ''/out'' [package_filename ''arm64-v8a'' 30 5]), cached_state)"
    using C7_download_cached [of cached_state "''/out''" "''arm64-v8a''" 30 5 sample_env] a
    by blast
  have c2: "download_system_package sample_env ''/out'' ''arm64-v8a'' 30 5 ?s1
              = (Inr ''/out/arm64-v8a-30_r05.zip'', ?s1)"
    using C7_download_cached [of sample_state "''/out''" "''arm64-v8a''" 30 5 online_env
                                 "''/out/arm64-v8a-30_r05.zip''" ?s1 sample_env] first
    by blast
  have c1': "download_system_package sample_env ''/out'' ''arm64-v8a'' 30 5 cached_state
              = (Inr ''/out/arm64-v8a-30_r05.zip'', cached_state)"
    using c1 unfolding n j .
  show ?thesis using n a c1' first c2 by (intro conjI)
qed

subsection \<open>The package extractor\<close>

text \<open>
  Claim C2, as the specification has it, fails: the properties in the archive give
  revision 0 and a \<open>system.img\<close> is already at the destination; the extractor returns
  the path of that file, not \<open>None\<close>.
\<close>

theorem C2_stale_image_counterexample:
  "extract_system_package sample_env ''/out/arm64-v8a-30_r05.zip'' ''arm64-v8a''
     ''/out/android-30_r05'' stale_state
   = (Inr (Some ''/out/android-30_r05/arm64-v8a/system.img'', 0), stale_state)"
  by (simp add: extract_system_package_def stale_state_def rev0_package_def fs_read_def
      load_source_properties_def source_open_def join_def join2_def sample_env_def
      sample_read_file_def revision_def sample_int_def strip_def str_space_def int_space_def
      is_digit_def digit_val_def seq_def ret_def isfile_def)

text \<open>
  Claim C2, amended: for every archive whose properties for the ABI subdirectory give
  revision 0, the extractor extracts nothing and changes nothing, whatever the archive
  holds; it returns \<open>(None, 0)\<close> when no \<open>system.img\<close> is at the destination path and
  that path with 0 when one is already there.
\<close>

theorem C2_revision_zero:
  "fs_read (fsys s) package = Inr (Container ms) \<Longrightarrow>
   load_source_properties E (ZipFile ms) abi (fsys s) = Inr prop \<Longrightarrow>
   revision E prop = Inr 0 \<Longrightarrow>
   extract_system_package E package abi dst s =
     (Inr (if isfile (fsys s) (join dst [abi, ''system.img''])
           then Some (join dst [abi, ''system.img'']) else None, 0), s)"
  by (simp add: extract_system_package_def seq_def ret_def)

theorem C2_revision_zero_witness:
  "fs_read (fsys cached_state) ''/out/arm64-v8a-30_r05.zip''
     = Inr (Container [(''arm64-v8a/source.properties'', Bytes ''Pkg.Revision=0''),
                       (''arm64-v8a/system.img'', sample_img)])
   \<and> load_source_properties sample_env
        (ZipFile [(''arm64-v8a/source.properties'', Bytes ''Pkg.Revision=0''),
                  (''arm64-v8a/system.img'', sample_img)]) ''arm64-v8a'' (fsys cached_state)
       = Inr (empty_dict(''Pkg.Revision'' := Found ''0''))
   \<and> revision sample_env (empty_dict(''Pkg.Revision'' := Found ''0'')) = Inr 0
   \<and> extract_system_package sample_env ''/out/arm64-v8a-30_r05.zip'' ''arm64-v8a''
        ''/out/android-30_r05'' cached_state = (Inr (None, 0), cached_state)"
proof -
  have a: "fs_read (fsys cached_state) ''/out/arm64-v8a-30_r05.zip''
     = Inr (Container [(''arm64-v8a/source.properties'', Bytes ''Pkg.Revision=0''),
                       (''arm64-v8a/system.img'', sample_img)])"
    by (simp add: fs_read_def cached_state_def rev0_package_def)
  have p: "load_source_properties sample_env
        (ZipFile [(''arm64-v8a/source.properties'', Bytes ''Pkg.Revision=0''),
                  (''arm64-v8a/system.img'', sample_img)]) ''arm64-v8a'' (fsys cached_state)
       = Inr (empty_dict(''Pkg.Revision'' := Found ''0''))"
    by (simp add: load_source_properties_def source_open_def join_def join2_def
        sample_env_def sample_read_file_def strip_def str_space_def)
  have r: "revision sample_env (empty_dict(''Pkg.Revision'' := Found ''0'')) = Inr 0"
    by (simp add: revision_def sample_env_def sample_int_def int_space_def is_digit_def
        digit_val_def)
  have i: "\<not> isfile (fsys cached_state) (join ''/out/android-30_r05'' [''arm64-v8a'', ''system.img''])"
    by (simp add: join_def join2_def isfile_def cached_state_def)
  show ?thesis
    using C2_revision_zero [OF a p r, of "''/out/android-30_r05''"] a p r i by simp
qed

subsection \<open>\<open>main\<close>\<close>

text \<open>
  Claim C9, as the specification has it, fails: \<open>ANDROID_SDK_HOME\<close> is set to the empty
  string and \<open>ANDROID_SDK_ROOT\<close> to \<open>/sdk\<close>; the empty string wins.
\<close>

theorem C9_empty_variable_counterexample:
  "resolve_sdk
     (sample_env\<lparr>getenv := [''ANDROID_SDK_HOME'' \<mapsto> '''', ''ANDROID_SDK_ROOT'' \<mapsto> ''/sdk'']\<rparr>)
     None = Some ''''"
  by (simp add: resolve_sdk_def)

text \<open>
  Claim C9, amended: when \<open>--sdk\<close> is absent, the SDK root is the value of
  \<open>ANDROID_SDK_HOME\<close> if that variable is set, whatever its value, the empty string
  included, and otherwise the value of \<open>ANDROID_SDK_ROOT\<close> if that one is set: the first
  variable that is set wins.
\<close>

theorem C9_first_set_variable_wins:
  "resolve_sdk E None =
     (case getenv E ''ANDROID_SDK_HOME'' of
        Some v \<Rightarrow> Some v
      | None \<Rightarrow> getenv E ''ANDROID_SDK_ROOT'')"
  by (simp add: resolve_sdk_def split: option.splits)

theorem C9_first_set_variable_wins_witness:
  "resolve_sdk (sample_env\<lparr>getenv := [''ANDROID_SDK_ROOT'' \<mapsto> ''/sdk'']\<rparr>) None = Some ''/sdk''
   \<and> resolve_sdk (sample_env\<lparr>getenv := [''ANDROID_SDK_HOME'' \<mapsto> ''/home'',
                                        ''ANDROID_SDK_ROOT'' \<mapsto> ''/sdk'']\<rparr>) None = Some ''/home''"
  using C9_first_set_variable_wins [of "sample_env\<lparr>getenv := [''ANDROID_SDK_ROOT'' \<mapsto> ''/sdk'']\<rparr>"]
    C9_first_set_variable_wins [of "sample_env\<lparr>getenv := [''ANDROID_SDK_HOME'' \<mapsto> ''/home'',
                                        ''ANDROID_SDK_ROOT'' \<mapsto> ''/sdk'']\<rparr>"]
  by simp

text \<open>
  Claim C1. The claim: without an SDK root the tool goes on to download, extract and
  mount. The code does otherwise: with no \<open>--sdk\<close> and no environment variable set,
  \<open>img\<close> is never assigned, and the test \<open>img is None\<close> at line 145 raises
  \<open>UnboundLocalError\<close>; the state is as it was, so nothing was requested, extracted or
  mounted. This holds for every argument list without \<open>--sdk\<close>, a nonzero \<open>--rev\<close>
  included.
\<close>

theorem C1_no_sdk_img_unbound:
  "main (E\<lparr>getenv := (\<lambda>name. None)\<rparr>) (a\<lparr>arg_sdk := None\<rparr>) s = (Inl UnboundLocalError, s)"
  by (simp add: main_def resolve_sdk_def sdk_lookup_def seq_def throw_def)

theorem C1_no_sdk_img_unbound_witness:
  "main sample_env scenario_A sample_state = (Inl UnboundLocalError, sample_state)"
  using C1_no_sdk_img_unbound [of sample_env scenario_A sample_state]
  by (simp add: sample_env_def scenario_A_def)

subsection \<open>Steps only add to the trace\<close>

lemma extends_ret: "extends (ret x)"
  by (simp add: extends_def ret_def)

lemma extends_throw: "extends (throw e)"
  by (simp add: extends_def throw_def)

lemma extends_fs_step: "extends (fs_step ev op)"
  by (auto simp: extends_def fs_step_def emit_def split: sum.splits)

lemma extends_run: "extends (run E argv cwd)"
  by (auto simp: extends_def run_def emit_def split: prod.splits)

lemma extends_deapexer: "extends (deapexer_RunExtract E apex dest)"
  by (auto simp: extends_def deapexer_RunExtract_def emit_def split: prod.splits)

lemma extends_seq:
  assumes "extends m" and "\<And>x. extends (k x)"
  shows "extends (seq m k)"
  unfolding extends_def
proof
  fix s :: state
  obtain r s1 where m: "m s = (r, s1)" by (cases "m s")
  obtain a where a: "trace s1 = trace s @ a"
    using assms(1) m unfolding extends_def by (metis snd_conv)
  show "\<exists>evs. trace (snd (seq m k s)) = trace s @ evs"
  proof (cases r)
    case (Inl e)
    then show ?thesis using m a by (simp add: seq_def)
  next
    case (Inr x)
    obtain b where "trace (snd (k x s1)) = trace s1 @ b"
      using assms(2) [of x] unfolding extends_def by blast
    then show ?thesis using m a Inr by (simp add: seq_def)
  qed
qed

lemma extends_try_finally:
  assumes "extends m" and "extends c"
  shows "extends (try_finally m c)"
  unfolding extends_def
proof
  fix s :: state
  obtain r s1 where m: "m s = (r, s1)" by (cases "m s")
  obtain a where a: "trace s1 = trace s @ a"
    using assms(1) m unfolding extends_def by (metis snd_conv)
  obtain r2 s2 where c: "c s1 = (r2, s2)" by (cases "c s1")
  obtain b where b: "trace s2 = trace s1 @ b"
    using assms(2) c unfolding extends_def by (metis snd_conv)
  show "\<exists>evs. trace (snd (try_finally m c s)) = trace s @ evs"
    using m c a b by (cases r2) (simp_all add: try_finally_def)
qed

lemma extends_cpy_loop: "extends (cpy_loop dst src fs)"
  by (induction fs) (simp_all add: extends_ret extends_seq extends_fs_step shutil_copy2_def)

lemma extends_cpy: "extends (cpy dst src fs)"
  by (simp add: cpy_def extends_seq extends_fs_step extends_cpy_loop os_makedirs_def)

lemma extends_copy_from_apex: "extends (copy_from_apex src dst)"
  by (simp add: copy_from_apex_def extends_seq extends_cpy)

lemma extends_copy_from_img: "extends (copy_from_img src dst)"
  by (simp add: copy_from_img_def Let_def extends_seq extends_fs_step os_makedirs_def)

lemma extends_with_TemporaryDirectory:
  assumes "\<And>t. extends (body t)"
  shows "extends (with_TemporaryDirectory E body)"
  unfolding extends_def
proof
  fix s :: state
  let ?t = "mkdtemp E (fsys s)"
  show "\<exists>evs. trace (snd (with_TemporaryDirectory E body s)) = trace s @ evs"
  proof (cases "fs_mkdir ?t (fsys s)")
    case (Inl e)
    then show ?thesis by (simp add: with_TemporaryDirectory_def emit_def Let_def)
  next
    case (Inr f)
    let ?c = "\<lambda>s'. (Inr (), emit (Rmtree ?t) (s'\<lparr>fsys := fs_rmtree ?t (fsys s')\<rparr>)) :: (exc + unit) \<times> state"
    have "extends ?c" by (simp add: extends_def emit_def)
    then have "extends (try_finally (body ?t) ?c)"
      using assms extends_try_finally by blast
    then obtain evs where
      "trace (snd (try_finally (body ?t) ?c (emit (Mkdtemp ?t) (s\<lparr>fsys := f\<rparr>))))
         = trace (emit (Mkdtemp ?t) (s\<lparr>fsys := f\<rparr>)) @ evs"
      unfolding extends_def by blast
    then show ?thesis using Inr by (simp add: with_TemporaryDirectory_def emit_def Let_def)
  qed
qed

lemma extends_extract_apex_and_copy: "extends (extract_apex_and_copy E apex dst)"
  by (simp add: extract_apex_and_copy_def extends_with_TemporaryDirectory extends_seq
      extends_deapexer extends_copy_from_apex)

lemma extends_mount_try: "extends (mount_try E img dst t mkdir)"
  by (simp add: mount_try_def extends_seq extends_ret extends_run extends_fs_step
      os_makedirs_def extends_copy_from_img extends_extract_apex_and_copy)

lemma extends_mount_finally: "extends (mount_finally E t mkdir)"
  by (simp add: mount_finally_def extends_seq extends_ret extends_run extends_fs_step os_rmdir_def)

subsection \<open>The trace of a step that succeeds\<close>

lemma seq_Inr:
  assumes "seq m k s = (Inr y, s')"
  obtains x s1 where "m s = (Inr x, s1)" and "k x s1 = (Inr y, s')"
  using assms by (auto simp: seq_def split: prod.splits sum.splits)

lemma fs_step_Inr: "fs_step ev op s = (Inr u, s') \<Longrightarrow> trace s' = trace s @ [ev]"
  by (auto simp: fs_step_def emit_def split: sum.splits)

lemma run_trace: "run E argv cwd s = (r, s') \<Longrightarrow> trace s' = trace s @ [Run argv]"
  by (auto simp: run_def emit_def split: prod.splits)

lemma cpy_loop_Inr:
  "cpy_loop dst src fs s = (Inr u, s') \<Longrightarrow>
   trace s' = trace s @ map (\<lambda>f. Copy2 (join src [f]) dst) fs"
proof (induction fs arbitrary: s)
  case Nil
  then show ?case by (simp add: ret_def)
next
  case (Cons f fs)
  from Cons.prems obtain x s1 where
    a: "shutil_copy2 (join src [f]) dst s = (Inr x, s1)" and b: "cpy_loop dst src fs s1 = (Inr u, s')"
    by (auto elim: seq_Inr)
  have "trace s1 = trace s @ [Copy2 (join src [f]) dst]"
    using a by (simp add: shutil_copy2_def fs_step_Inr)
  then show ?case using Cons.IH [OF b] by simp
qed

lemma cpy_Inr:
  assumes "cpy dst src fs s = (Inr u, s')"
  shows "trace s' = trace s @ Makedirs dst # map (\<lambda>f. Copy2 (join src [f]) dst) fs"
proof -
  from assms obtain x s1 where
    a: "os_makedirs True dst s = (Inr x, s1)" and b: "cpy_loop dst src fs s1 = (Inr u, s')"
    unfolding cpy_def by (auto elim: seq_Inr)
  have "trace s1 = trace s @ [Makedirs dst]"
    using a by (simp add: os_makedirs_def fs_step_Inr)
  then show ?thesis using cpy_loop_Inr [OF b] by simp
qed

lemma copy_from_apex_Inr:
  assumes "copy_from_apex src dst s = (Inr u, s')"
  shows "trace s' = trace s @
           [Makedirs (join dst [''bin'']),
            Copy2 (join src [''bin'', ''linker64'']) (join dst [''bin'']),
            Makedirs (join dst [''lib64'']),
            Copy2 (join src [''lib64'', ''bionic'', ''libc.so'']) (join dst [''lib64'']),
            Copy2 (join src [''lib64'', ''bionic'', ''libm.so'']) (join dst [''lib64'']),
            Copy2 (join src [''lib64'', ''bionic'', ''libdl.so'']) (join dst [''lib64''])]"
proof -
  from assms obtain x s1 where
    a: "cpy (join dst [''bin'']) (join src [''bin'']) [''linker64''] s = (Inr x, s1)" and
    b: "cpy (join dst [''lib64'']) (join src [''lib64'', ''bionic''])
          [''libc.so'', ''libm.so'', ''libdl.so''] s1 = (Inr u, s')"
    unfolding copy_from_apex_def by (auto elim: seq_Inr)
  show ?thesis using cpy_Inr [OF a] cpy_Inr [OF b] by (simp add: join_def)
qed

lemma copy_from_img_Inr:
  assumes "copy_from_img src dst s = (Inr u, s')"
  shows "trace s' = trace s @
           [Makedirs (join dst [''linkerconfig'']),
            Touch (join dst [''linkerconfig'', ''ld.config.txt''])]"
proof -
  from assms obtain x s1 where
    a: "os_makedirs True (join dst [''linkerconfig'']) s = (Inr x, s1)" and
    b: "fs_step (Touch (join (join dst [''linkerconfig'']) [''ld.config.txt'']))
          (fs_touch (join (join dst [''linkerconfig'']) [''ld.config.txt''])) s1 = (Inr u, s')"
    unfolding copy_from_img_def Let_def by (auto elim: seq_Inr)
  have "trace s1 = trace s @ [Makedirs (join dst [''linkerconfig''])]"
    using a by (simp add: os_makedirs_def fs_step_Inr)
  then show ?thesis using fs_step_Inr [OF b] by (simp add: join_def)
qed

lemma deapexer_trace:
  "deapexer_RunExtract E apex dest s = (r, s') \<Longrightarrow> trace s' = trace s @ [Deapex apex dest]"
  by (auto simp: deapexer_RunExtract_def emit_def split: prod.splits)

lemma try_finally_Inr:
  assumes "try_finally m c s = (Inr y, s')"
  obtains s1 u where "m s = (Inr y, s1)" and "c s1 = (Inr u, s')"
  using assms by (auto simp: try_finally_def split: prod.splits sum.splits)

lemma mount_finally_Inr:
  assumes "mount_finally E t mkdir s = (Inr u, s')"
  shows "trace s' = trace s @ Run (umount_argv t) # (if mkdir then [Rmdir t] else [])"
proof -
  from assms obtain rc s1 where
    a: "run E (umount_argv t) None s = (Inr rc, s1)" and
    b: "(if mkdir then os_rmdir t else ret ()) s1 = (Inr u, s')"
    unfolding mount_finally_def by (elim seq_Inr) blast
  have "trace s' = trace s1 @ (if mkdir then [Rmdir t] else [])"
    using b by (auto simp: os_rmdir_def ret_def dest: fs_step_Inr split: if_splits)
  then show ?thesis using run_trace [OF a] by simp
qed

lemma rmdir_gone: "fs_rmdir p f = Inr f' \<Longrightarrow> \<not> isdir f' p"
  by (auto simp: fs_rmdir_def isdir_def split: if_splits)

subsection \<open>How a step begins\<close>

lemma starts_seq:
  assumes "m s = (Inr x, s1)" and "trace s1 = trace s @ a" and "starts (k x) s1 b"
  shows "starts (seq m k) s (a @ b)"
  using assms by (auto simp: starts_def seq_def)

lemma starts_try_finally:
  assumes "starts m s a" and "extends c"
  shows "starts (try_finally m c) s a"
proof -
  obtain r s1 where m: "m s = (r, s1)" by (cases "m s")
  obtain post where p: "trace s1 = trace s @ a @ post"
    using assms(1) m by (auto simp: starts_def)
  obtain r2 s2 where c: "c s1 = (r2, s2)" by (cases "c s1")
  obtain b where b: "trace s2 = trace s1 @ b"
    using assms(2) c unfolding extends_def by (metis snd_conv)
  show ?thesis using m c p b by (cases r2) (simp_all add: starts_def try_finally_def)
qed

lemma starts_deapexer_seq:
  assumes "\<And>x. extends (k x)"
  shows "starts (seq (deapexer_RunExtract E apex dest) k) s [Deapex apex dest]"
proof -
  obtain r s1 where d: "deapexer_RunExtract E apex dest s = (r, s1)"
    by (cases "deapexer_RunExtract E apex dest s")
  have t: "trace s1 = trace s @ [Deapex apex dest]" using deapexer_trace [OF d] .
  show ?thesis
  proof (cases r)
    case (Inl e)
    then show ?thesis using d t by (simp add: starts_def seq_def)
  next
    case (Inr x)
    obtain b where "trace (snd (k x s1)) = trace s1 @ b"
      using assms [of x] unfolding extends_def by blast
    then show ?thesis using d t Inr by (simp add: starts_def seq_def)
  qed
qed

lemma starts_extract_apex_and_copy:
  assumes "fs_mkdir (mkdtemp E (fsys s)) (fsys s) = Inr f"
  shows "starts (extract_apex_and_copy E apex dst) s
           [Mkdtemp (mkdtemp E (fsys s)), Deapex apex (mkdtemp E (fsys s))]"
proof -
  let ?t = "mkdtemp E (fsys s)"
  let ?s0 = "emit (Mkdtemp ?t) (s\<lparr>fsys := f\<rparr>)"
  let ?body = "seq (deapexer_RunExtract E apex ?t) (\<lambda>u. copy_from_apex ?t dst)"
  let ?c = "\<lambda>s'. (Inr (), emit (Rmtree ?t) (s'\<lparr>fsys := fs_rmtree ?t (fsys s')\<rparr>)) :: (exc + unit) \<times> state"
  have "starts ?body ?s0 [Deapex apex ?t]"
    by (rule starts_deapexer_seq) (rule extends_copy_from_apex)
  moreover have "extends ?c" by (simp add: extends_def emit_def)
  ultimately have "starts (try_finally ?body ?c) ?s0 [Deapex apex ?t]"
    by (rule starts_try_finally)
  then show ?thesis using assms
    by (simp add: starts_def extract_apex_and_copy_def with_TemporaryDirectory_def Let_def emit_def)
qed

subsection \<open>Exit statuses\<close>

lemma run_with_status:
  "seq (run (with_status c E) argv cwd) (\<lambda>rc. k) = seq (run E argv cwd) (\<lambda>rc. k)"
  by (rule ext) (auto simp: seq_def run_def with_status_def split: prod.splits sum.splits)

lemma deapexer_with_status:
  "deapexer_RunExtract (with_status c E) apex dest = deapexer_RunExtract E apex dest"
  by (rule ext) (simp add: deapexer_RunExtract_def with_status_def)

lemma extract_apex_and_copy_with_status:
  "extract_apex_and_copy (with_status c E) apex dst = extract_apex_and_copy E apex dst"
proof
  fix s :: state
  have "mkdtemp (with_status c E) = mkdtemp E" by (simp add: with_status_def)
  then show "extract_apex_and_copy (with_status c E) apex dst s = extract_apex_and_copy E apex dst s"
    by (simp add: extract_apex_and_copy_def with_TemporaryDirectory_def deapexer_with_status)
qed

lemma mount_try_with_status:
  "mount_try (with_status c E) img dst t mkdir = mount_try E img dst t mkdir"
  by (simp add: mount_try_def run_with_status extract_apex_and_copy_with_status)

lemma mount_finally_with_status:
  "mount_finally (with_status c E) t mkdir = mount_finally E t mkdir"
  by (simp add: mount_finally_def run_with_status)

subsection \<open>What the copies write\<close>

lemma basename_join:
  assumes "CHR ''/'' \<notin> set n"
  shows "basename (join a [n]) = n"
proof -
  have n1: "take 1 n \<noteq> ''/''" using assms by (cases n) auto
  have tw: "takeWhile (\<lambda>c. c \<noteq> CHR ''/'') (rev n @ r) = rev n @ takeWhile (\<lambda>c. c \<noteq> CHR ''/'') r"
    for r by (rule takeWhile_append2) (use assms in auto)
  show ?thesis
  proof (cases "a = [] \<or> last a = CHR ''/''")
    case True
    then have "takeWhile (\<lambda>c. c \<noteq> CHR ''/'') (rev a) = []"
      by (cases a rule: rev_cases) auto
    then show ?thesis using True n1 tw [of "rev a"] by (simp add: basename_def join_def join2_def)
  next
    case False
    then show ?thesis
      using n1 tw [of "CHR ''/'' # rev a"] by (simp add: basename_def join_def join2_def)
  qed
qed

text \<open>The last four characters of a joined path are those of its last part.\<close>

lemma join_tail:
  assumes "take 1 n \<noteq> ''/''" and "4 \<le> length n"
  shows "take 4 (rev (join a [n])) = take 4 (rev n)"
  using assms by (simp add: join_def join2_def)

lemma makedirs_ok:
  assumes "os_makedirs ok p s = (Inr u, s')"
  shows "files (fsys s') = files (fsys s) \<and> isdir (fsys s') p"
  using assms
  by (auto simp: os_makedirs_def fs_step_def fs_makedirs_def emit_def isdir_def
      split: if_splits)

lemma copy2_ok:
  assumes "shutil_copy2 src dstdir s = (Inr u, s')" and "isdir (fsys s) dstdir"
  shows "\<exists>x. content (fsys s) src = Some x
             \<and> files (fsys s') = (join dstdir [basename src], x) # files (fsys s)
             \<and> dirs (fsys s') = dirs (fsys s)"
  using assms
  by (auto simp: shutil_copy2_def fs_step_def fs_copy2_def fs_read_def fs_write_def emit_def
      content_def Let_def split: sum.splits option.splits if_splits)

text \<open>
  \<open>copy_from_apex\<close>, when it succeeds, adds exactly four files: each has the content
  that its source had when \<open>copy_from_apex\<close> began.
\<close>

lemma copy_from_apex_files:
  assumes "copy_from_apex src dst s = (Inr u, s')"
  shows "\<exists>x1 x2 x3 x4.
           content (fsys s) (join src [''bin'', ''linker64'']) = Some x1
         \<and> content (fsys s) (join src [''lib64'', ''bionic'', ''libc.so'']) = Some x2
         \<and> content (fsys s) (join src [''lib64'', ''bionic'', ''libm.so'']) = Some x3
         \<and> content (fsys s) (join src [''lib64'', ''bionic'', ''libdl.so'']) = Some x4
         \<and> files (fsys s') =
             [(join dst [''lib64'', ''libdl.so''], x4),
              (join dst [''lib64'', ''libm.so''], x3),
              (join dst [''lib64'', ''libc.so''], x2),
              (join dst [''bin'', ''linker64''], x1)] @ files (fsys s)"
proof -
  let ?sb = "join src [''bin'']" and ?sl = "join src [''lib64'', ''bionic'']"
  let ?db = "join dst [''bin'']" and ?dl = "join dst [''lib64'']"
  from assms obtain u1 sa where
    a: "cpy ?db ?sb [''linker64''] s = (Inr u1, sa)" and
    b: "cpy ?dl ?sl [''libc.so'', ''libm.so'', ''libdl.so''] sa = (Inr u, s')"
    unfolding copy_from_apex_def by (auto elim: seq_Inr)
  from a obtain v1 v2 s1 s2 where
    m1: "os_makedirs True ?db s = (Inr v1, s1)" and
    c1: "shutil_copy2 (join ?sb [''linker64'']) ?db s1 = (Inr v2, s2)" and
    e1: "s2 = sa"
    unfolding cpy_def by (auto elim!: seq_Inr simp: ret_def)
  from b obtain w0 w1 w2 w3 s3 s4 s5 s6 where
    m2: "os_makedirs True ?dl sa = (Inr w0, s3)" and
    c2: "shutil_copy2 (join ?sl [''libc.so'']) ?dl s3 = (Inr w1, s4)" and
    c3: "shutil_copy2 (join ?sl [''libm.so'']) ?dl s4 = (Inr w2, s5)" and
    c4: "shutil_copy2 (join ?sl [''libdl.so'']) ?dl s5 = (Inr w3, s6)" and
    e2: "s6 = s'"
    unfolding cpy_def by (auto elim!: seq_Inr simp: ret_def)
  have bn: "basename (join ?sb [''linker64'']) = ''linker64''"
    "basename (join ?sl [''libc.so'']) = ''libc.so''"
    "basename (join ?sl [''libm.so'']) = ''libm.so''"
    "basename (join ?sl [''libdl.so'']) = ''libdl.so''"
    by (simp_all add: basename_join)
  note k1 = makedirs_ok [OF m1]
  from copy2_ok [OF c1] k1 obtain x1 where
    x1: "content (fsys s) (join ?sb [''linker64'']) = Some x1" and
    f2: "files (fsys s2) = (join ?db [''linker64''], x1) # files (fsys s)"
    by (auto simp: bn content_def)
  note k3 = makedirs_ok [OF m2]
  have f3: "files (fsys s3) = (join ?db [''linker64''], x1) # files (fsys s)"
    using k3 f2 e1 by simp
  have ne: "join ?sl [n] \<noteq> join ?db [''linker64'']"
    if "take 4 (rev n) \<noteq> ''46re''" "take 1 n \<noteq> ''/''" "4 \<le> length n" for n
  proof
    assume "join ?sl [n] = join ?db [''linker64'']"
    then have "take 4 (rev (join ?sl [n])) = take 4 (rev (join ?db [''linker64'']))" by simp
    then show False using that by (simp add: join_tail)
  qed
  have nd: "join ?sl [n] \<noteq> join ?dl [m]"
    if "take 4 (rev n) \<noteq> take 4 (rev m)" "take 1 n \<noteq> ''/''" "4 \<le> length n"
       "take 1 m \<noteq> ''/''" "4 \<le> length m" for n m
  proof
    assume "join ?sl [n] = join ?dl [m]"
    then have "take 4 (rev (join ?sl [n])) = take 4 (rev (join ?dl [m]))" by simp
    then show False using that by (simp add: join_tail)
  qed
  from copy2_ok [OF c2] k3 obtain x2 where
    x2: "content (fsys s3) (join ?sl [''libc.so'']) = Some x2" and
    f4: "files (fsys s4) = (join ?dl [''libc.so''], x2) # files (fsys s3)" and
    d4: "dirs (fsys s4) = dirs (fsys s3)"
    by (auto simp: bn)
  have x2': "content (fsys s) (join ?sl [''libc.so'']) = Some x2"
    using x2 f3 ne [of "''libc.so''"] by (simp add: content_def)
  have i4: "isdir (fsys s4) ?dl" using k3 d4 by (simp add: isdir_def)
  from copy2_ok [OF c3 i4] obtain x3 where
    x3: "content (fsys s4) (join ?sl [''libm.so'']) = Some x3" and
    f5: "files (fsys s5) = (join ?dl [''libm.so''], x3) # files (fsys s4)" and
    d5: "dirs (fsys s5) = dirs (fsys s4)"
    by (auto simp: bn)
  have x3': "content (fsys s) (join ?sl [''libm.so'']) = Some x3"
    using x3 f4 f3 ne [of "''libm.so''"] nd [of "''libm.so''" "''libc.so''"]
    by (simp add: content_def)
  have i5: "isdir (fsys s5) ?dl" using i4 d5 by (simp add: isdir_def)
  from copy2_ok [OF c4 i5] obtain x4 where
    x4: "content (fsys s5) (join ?sl [''libdl.so'']) = Some x4" and
    f6: "files (fsys s6) = (join ?dl [''libdl.so''], x4) # files (fsys s5)"
    by (auto simp: bn)
  have x4': "content (fsys s) (join ?sl [''libdl.so'']) = Some x4"
    using x4 f5 f4 f3 ne [of "''libdl.so''"] nd [of "''libdl.so''" "''libc.so''"]
      nd [of "''libdl.so''" "''libm.so''"]
    by (simp add: content_def)
  show ?thesis
    using x1 x2' x3' x4' f6 f5 f4 f3 e2 by (simp add: join_def)
qed

lemma content_rmtree:
  "\<not> below p t \<Longrightarrow> map_of (filter (\<lambda>(q, d). \<not> below p q) xs) t = map_of xs t"
  by (induction xs) auto

lemma below_system:
  "below (join dst [''system'']) (join dst [''system'', ''bin'', ''linker64''])"
  "below (join dst [''system'']) (join dst [''system'', ''lib64'', ''libc.so''])"
  "below (join dst [''system'']) (join dst [''system'', ''lib64'', ''libm.so''])"
  "below (join dst [''system'']) (join dst [''system'', ''lib64'', ''libdl.so''])"
  by (simp_all add: below_def join_def join2_def nth_append)

lemma target_tails:
  "take 4 (rev (join dst [''system'', ''bin'', ''linker64''])) = ''46re''"
  "take 4 (rev (join dst [''system'', ''lib64'', ''libc.so''])) = ''os.c''"
  "take 4 (rev (join dst [''system'', ''lib64'', ''libm.so''])) = ''os.m''"
  "take 4 (rev (join dst [''system'', ''lib64'', ''libdl.so''])) = ''os.l''"
  by (simp_all add: join_def join2_def)

text \<open>
  \<open>extract_apex_and_copy\<close>, when it succeeds: the module was extracted into the
  temporary directory, which gave the file system \<open>fa\<close>; the four files were copied
  out of \<open>fa\<close>; then the temporary directory was cleared.
\<close>

lemma extract_apex_and_copy_ok:
  assumes "extract_apex_and_copy E apex dst s = (Inr u, s')"
  shows "\<exists>tmp fb fa x1 x2 x3 x4.
           trace s' = trace s @
             [Mkdtemp tmp, Deapex apex tmp,
              Makedirs (join dst [''bin'']),
              Copy2 (join tmp [''bin'', ''linker64'']) (join dst [''bin'']),
              Makedirs (join dst [''lib64'']),
              Copy2 (join tmp [''lib64'', ''bionic'', ''libc.so'']) (join dst [''lib64'']),
              Copy2 (join tmp [''lib64'', ''bionic'', ''libm.so'']) (join dst [''lib64'']),
              Copy2 (join tmp [''lib64'', ''bionic'', ''libdl.so'']) (join dst [''lib64'']),
              Rmtree tmp]
         \<and> RunExtract E apex tmp fb = (None, fa)
         \<and> content fa (join tmp [''bin'', ''linker64'']) = Some x1
         \<and> content fa (join tmp [''lib64'', ''bionic'', ''libc.so'']) = Some x2
         \<and> content fa (join tmp [''lib64'', ''bionic'', ''libm.so'']) = Some x3
         \<and> content fa (join tmp [''lib64'', ''bionic'', ''libdl.so'']) = Some x4
         \<and> files (fsys s') =
             filter (\<lambda>(q, d). \<not> below tmp q)
               ([(join dst [''lib64'', ''libdl.so''], x4),
                 (join dst [''lib64'', ''libm.so''], x3),
                 (join dst [''lib64'', ''libc.so''], x2),
                 (join dst [''bin'', ''linker64''], x1)] @ files fa)
         \<and> tmp = mkdtemp E (fsys s)"
proof -
  let ?t = "mkdtemp E (fsys s)"
  let ?body = "seq (deapexer_RunExtract E apex ?t) (\<lambda>u. copy_from_apex ?t dst)"
  obtain f where f: "fs_mkdir ?t (fsys s) = Inr f"
    using assms
    by (cases "fs_mkdir ?t (fsys s)")
       (simp_all add: extract_apex_and_copy_def with_TemporaryDirectory_def Let_def)
  let ?s0 = "emit (Mkdtemp ?t) (s\<lparr>fsys := f\<rparr>)"
  obtain r1 s1 where body: "?body ?s0 = (r1, s1)" by (cases "?body ?s0")
  have whole: "extract_apex_and_copy E apex dst s
                 = (r1, emit (Rmtree ?t) (s1\<lparr>fsys := fs_rmtree ?t (fsys s1)\<rparr>))"
    using f body
    by (simp add: extract_apex_and_copy_def with_TemporaryDirectory_def Let_def try_finally_def)
  then have r1: "r1 = Inr u" and s': "s' = emit (Rmtree ?t) (s1\<lparr>fsys := fs_rmtree ?t (fsys s1)\<rparr>)"
    using assms by simp_all
  from body r1 obtain x s2 where
    a: "deapexer_RunExtract E apex ?t ?s0 = (Inr x, s2)" and
    b: "copy_from_apex ?t dst s2 = (Inr u, s1)"
    by (auto elim: seq_Inr)
  have ex: "RunExtract E apex ?t f = (None, fsys s2)"
    using a
    by (auto simp: deapexer_RunExtract_def emit_def split: prod.splits option.splits)
  have t2: "trace s2 = trace s @ [Mkdtemp ?t, Deapex apex ?t]"
    using deapexer_trace [OF a] by (simp add: emit_def)
  from copy_from_apex_files [OF b] obtain x1 x2 x3 x4 where
    c: "content (fsys s2) (join ?t [''bin'', ''linker64'']) = Some x1"
       "content (fsys s2) (join ?t [''lib64'', ''bionic'', ''libc.so'']) = Some x2"
       "content (fsys s2) (join ?t [''lib64'', ''bionic'', ''libm.so'']) = Some x3"
       "content (fsys s2) (join ?t [''lib64'', ''bionic'', ''libdl.so'']) = Some x4" and
    fl: "files (fsys s1) =
             [(join dst [''lib64'', ''libdl.so''], x4),
              (join dst [''lib64'', ''libm.so''], x3),
              (join dst [''lib64'', ''libc.so''], x2),
              (join dst [''bin'', ''linker64''], x1)] @ files (fsys s2)"
    by blast
  have tr: "trace s' = trace s @
             [Mkdtemp ?t, Deapex apex ?t,
              Makedirs (join dst [''bin'']),
              Copy2 (join ?t [''bin'', ''linker64'']) (join dst [''bin'']),
              Makedirs (join dst [''lib64'']),
              Copy2 (join ?t [''lib64'', ''bionic'', ''libc.so'']) (join dst [''lib64'']),
              Copy2 (join ?t [''lib64'', ''bionic'', ''libm.so'']) (join dst [''lib64'']),
              Copy2 (join ?t [''lib64'', ''bionic'', ''libdl.so'']) (join dst [''lib64'']),
              Rmtree ?t]"
    using t2 copy_from_apex_Inr [OF b] s' by (simp add: emit_def)
  have fs': "files (fsys s') = filter (\<lambda>(q, d). \<not> below ?t q) (files (fsys s1))"
    using s' by (simp add: emit_def fs_rmtree_def clear_below_def)
  have fin: "files (fsys s') =
             filter (\<lambda>(q, d). \<not> below ?t q)
               ([(join dst [''lib64'', ''libdl.so''], x4),
                 (join dst [''lib64'', ''libm.so''], x3),
                 (join dst [''lib64'', ''libc.so''], x2),
                 (join dst [''bin'', ''linker64''], x1)] @ files (fsys s2))"
    using fs' fl by simp
  show ?thesis
    by (rule exI [of _ ?t], rule exI [of _ f], rule exI [of _ "fsys s2"],
        rule exI [of _ x1], rule exI [of _ x2], rule exI [of _ x3], rule exI [of _ x4])
       (intro conjI tr ex c fin refl)
qed

lemma mount_finally_files:
  assumes "mount_finally E t mkdir s = (Inr u, s')"
  shows "\<exists>rc f'. subprocess_run E (umount_argv t) None (fsys s) = (Inr rc, f')
                 \<and> files (fsys s') = files f'"
proof -
  from assms obtain rc s1 where
    a: "run E (umount_argv t) None s = (Inr rc, s1)" and
    b: "(if mkdir then os_rmdir t else ret ()) s1 = (Inr u, s')"
    unfolding mount_finally_def by (elim seq_Inr) blast
  have "files (fsys s') = files (fsys s1)"
    using b
    by (auto simp: os_rmdir_def fs_step_def fs_rmdir_def ret_def emit_def
        split: if_splits sum.splits)
  moreover have "subprocess_run E (umount_argv t) None (fsys s) = (Inr rc, fsys s1)"
    using a by (auto simp: run_def emit_def split: prod.splits)
  ultimately show ?thesis by blast
qed

lemma mount_try_files:
  assumes "mount_try E img dst t mkdir s = (Inr u, s')"
  shows "\<exists>s2. extract_apex_and_copy E (join t [''system'', ''apex'', ''com.android.runtime.apex''])
                 (join dst [''system'']) s2 = (Inr u, s')
              \<and> trace s2 = trace s @ (if mkdir then [Makedirs t] else []) @
                   [Run (mount_argv img t),
                    Makedirs (join dst [''linkerconfig'']),
                    Touch (join dst [''linkerconfig'', ''ld.config.txt''])]"
proof -
  from assms obtain x0 s0 rc s1 x2 s2 where
    a: "(if mkdir then os_makedirs False t else ret ()) s = (Inr x0, s0)" and
    b: "run E (mount_argv img t) None s0 = (Inr rc, s1)" and
    c: "copy_from_img t dst s1 = (Inr x2, s2)" and
    d: "extract_apex_and_copy E (join t [''system'', ''apex'', ''com.android.runtime.apex''])
          (join dst [''system'']) s2 = (Inr u, s')"
    unfolding mount_try_def by (elim seq_Inr) blast
  have "trace s0 = trace s @ (if mkdir then [Makedirs t] else [])"
    using a by (auto simp: os_makedirs_def ret_def dest: fs_step_Inr split: if_splits)
  then have "trace s2 = trace s @ (if mkdir then [Makedirs t] else []) @
                   [Run (mount_argv img t),
                    Makedirs (join dst [''linkerconfig'']),
                    Touch (join dst [''linkerconfig'', ''ld.config.txt''])]"
    using run_trace [OF b] copy_from_img_Inr [OF c] by simp
  then show ?thesis using d by blast
qed

subsection \<open>Three runs of the mount/copy step on the sample machine\<close>

lemmas run_defs =
  mount_img_and_copy_def Let_def try_finally_def mount_try_def mount_finally_def
  seq_def ret_def run_def os_makedirs_def os_rmdir_def fs_step_def fs_makedirs_def fs_rmdir_def
  fs_mkdir_def fs_touch_def fs_write_def fs_read_def fs_copy2_def fs_rmtree_def clear_below_def
  writable_def dirname_def basename_def below_def
  emit_def isdir_def isfile_def join_def join2_def ancestors_def
  copy_from_img_def extract_apex_and_copy_def with_TemporaryDirectory_def deapexer_RunExtract_def
  copy_from_apex_def cpy_def shutil_copy2_def
  sample_env_def sample_run_def sample_RunExtract_def unpack_def
  mount_argv_def umount_argv_def str_int_def digits.simps

text \<open>The image holds the runtime module: the step succeeds.\<close>

lemma sample_step:
  "mount_img_and_copy sample_env ''/img/system.img'' ''/out'' sample_state =
   (Inr (),
    \<lparr>fsys =
       \<lparr>files =
          [(''/out/system/lib64/libdl.so'', Bytes ''D''),
           (''/out/system/lib64/libm.so'', Bytes ''M''),
           (''/out/system/lib64/libc.so'', Bytes ''C''),
           (''/out/system/bin/linker64'', Bytes ''L''),
           (''/out/linkerconfig/ld.config.txt'', Bytes []),
           (''/img/system.img'', sample_img)],
        dirs =
          [''/out/system/lib64'', ''/out/system/bin'', ''/out/system'',
           ''/out/linkerconfig'', ''/'', ''/tmp'', ''/img'', ''/out'']\<rparr>,
     trace =
       [Makedirs ''/out/mount'',
        Run [''sudo'', ''mount'', ''-o'', ''loop,ro,offset=3145728'',
             ''/img/system.img'', ''/out/mount''],
        Makedirs ''/out/linkerconfig'',
        Touch ''/out/linkerconfig/ld.config.txt'',
        Mkdtemp ''/tmp/tmp0'',
        Deapex ''/out/mount/system/apex/com.android.runtime.apex'' ''/tmp/tmp0'',
        Makedirs ''/out/system/bin'',
        Copy2 ''/tmp/tmp0/bin/linker64'' ''/out/system/bin'',
        Makedirs ''/out/system/lib64'',
        Copy2 ''/tmp/tmp0/lib64/bionic/libc.so'' ''/out/system/lib64'',
        Copy2 ''/tmp/tmp0/lib64/bionic/libm.so'' ''/out/system/lib64'',
        Copy2 ''/tmp/tmp0/lib64/bionic/libdl.so'' ''/out/system/lib64'',
        Rmtree ''/tmp/tmp0'',
        Run [''sudo'', ''umount'', ''/out/mount''],
        Rmdir ''/out/mount'']\<rparr>)"
  by (simp add: run_defs sample_state_def sample_fs_def sample_img_def sample_apex_def)

text \<open>The module lacks \<open>libm.so\<close>: the third copy raises.\<close>

lemma broken_step:
  "mount_img_and_copy sample_env ''/img/system.img'' ''/out'' broken_state =
   (Inl FileNotFoundError,
    \<lparr>fsys =
       \<lparr>files =
          [(''/out/system/lib64/libc.so'', Bytes ''C''),
           (''/out/system/bin/linker64'', Bytes ''L''),
           (''/out/linkerconfig/ld.config.txt'', Bytes []),
           (''/img/system.img'',
            Container [(''system/apex/com.android.runtime.apex'', broken_apex)])],
        dirs =
          [''/out/system/lib64'', ''/out/system/bin'', ''/out/system'',
           ''/out/linkerconfig'', ''/'', ''/tmp'', ''/img'', ''/out'']\<rparr>,
     trace =
       [Makedirs ''/out/mount'',
        Run [''sudo'', ''mount'', ''-o'', ''loop,ro,offset=3145728'',
             ''/img/system.img'', ''/out/mount''],
        Makedirs ''/out/linkerconfig'',
        Touch ''/out/linkerconfig/ld.config.txt'',
        Mkdtemp ''/tmp/tmp0'',
        Deapex ''/out/mount/system/apex/com.android.runtime.apex'' ''/tmp/tmp0'',
        Makedirs ''/out/system/bin'',
        Copy2 ''/tmp/tmp0/bin/linker64'' ''/out/system/bin'',
        Makedirs ''/out/system/lib64'',
        Copy2 ''/tmp/tmp0/lib64/bionic/libc.so'' ''/out/system/lib64'',
        Copy2 ''/tmp/tmp0/lib64/bionic/libm.so'' ''/out/system/lib64'',
        Rmtree ''/tmp/tmp0'',
        Run [''sudo'', ''umount'', ''/out/mount''],
        Rmdir ''/out/mount'']\<rparr>)"
  by (simp add: run_defs broken_state_def broken_apex_def)

text \<open>
  The image cannot be mounted: \<open>mount\<close> returns 32, the step goes on, and
  \<open>deapexer\<close> finds no module below the mount directory.
\<close>

lemma unmountable_step:
  "mount_img_and_copy sample_env ''/img/system.img'' ''/out'' unmountable_state =
   (Inl ExternalError,
    \<lparr>fsys =
       \<lparr>files =
          [(''/out/linkerconfig/ld.config.txt'', Bytes []),
           (''/img/system.img'', Bytes ''raw'')],
        dirs = [''/out/linkerconfig'', ''/'', ''/tmp'', ''/img'', ''/out'']\<rparr>,
     trace =
       [Makedirs ''/out/mount'',
        Run [''sudo'', ''mount'', ''-o'', ''loop,ro,offset=3145728'',
             ''/img/system.img'', ''/out/mount''],
        Makedirs ''/out/linkerconfig'',
        Touch ''/out/linkerconfig/ld.config.txt'',
        Mkdtemp ''/tmp/tmp0'',
        Deapex ''/out/mount/system/apex/com.android.runtime.apex'' ''/tmp/tmp0'',
        Rmtree ''/tmp/tmp0'',
        Run [''sudo'', ''umount'', ''/out/mount''],
        Rmdir ''/out/mount'']\<rparr>)"
  by (simp add: run_defs unmountable_state_def)

lemma sample_umount_returns:
  "\<forall>f. \<exists>rc f'. subprocess_run sample_env (umount_argv t) None f = (Inr rc, f')"
  by (simp add: sample_env_def sample_run_def umount_argv_def)

lemma below_take:
  assumes "below a p" and "n \<le> length a"
  shows "take n p = take n a"
proof -
  have "take (length a) p = a" using assms(1) by (simp add: below_def)
  then have "take n a = take n (take (length a) p)" by simp
  then show ?thesis using assms(2) by (simp add: min_def)
qed

lemma sample_tmp_apart: "below ''/out/system'' p \<Longrightarrow> \<not> below (mkdtemp sample_env f) p"
proof
  assume a: "below ''/out/system'' p" and b: "below (mkdtemp sample_env f) p"
  have "take 2 p = ''/o''" using below_take [OF a, of 2] by simp
  moreover have "take 2 p = ''/t''"
    using below_take [of "''/tmp/tmp0''" p 2] b by (simp add: sample_env_def)
  ultimately show False by simp
qed

lemma sample_umount_keeps:
  assumes "subprocess_run sample_env (umount_argv ''/out/mount'') None f = (r, f')"
    and "below ''/out/system'' p"
  shows "content f' p = content f p"
proof -
  have nb: "\<not> below ''/out/mount'' p"
  proof
    assume b: "below ''/out/mount'' p"
    have "take 6 p = ''/out/s''" using below_take [OF assms(2), of 6] by simp
    moreover have "take 6 p = ''/out/m''" using below_take [OF b, of 6] by simp
    ultimately show False by simp
  qed
  have "f' = f \<or> f' = clear_below ''/out/mount'' f"
    using assms(1) by (auto simp: sample_env_def sample_run_def umount_argv_def split: if_splits)
  then show ?thesis
    using content_rmtree [OF nb] by (auto simp: content_def clear_below_def)
qed

subsection \<open>The mount/copy step\<close>

text \<open>
  Claim C4, as the specification has it, fails: the step succeeds, and no file is at
  \<open><dst>/bin/linker64\<close> or \<open><dst>/lib64/libc.so\<close>; the files are below
  \<open><dst>/system\<close>.
\<close>

theorem C4_direct_bin_counterexample:
  "fst (mount_img_and_copy sample_env ''/img/system.img'' ''/out'' sample_state) = Inr ()
   \<and> \<not> isfile (fsys (snd (mount_img_and_copy sample_env ''/img/system.img'' ''/out'' sample_state)))
          ''/out/bin/linker64''
   \<and> \<not> isfile (fsys (snd (mount_img_and_copy sample_env ''/img/system.img'' ''/out'' sample_state)))
          ''/out/lib64/libc.so''
   \<and> isfile (fsys (snd (mount_img_and_copy sample_env ''/img/system.img'' ''/out'' sample_state)))
        ''/out/system/bin/linker64''
   \<and> isfile (fsys (snd (mount_img_and_copy sample_env ''/img/system.img'' ''/out'' sample_state)))
        ''/out/system/lib64/libc.so''"
  by (simp add: sample_step isfile_def)

text \<open>
  Claim C4, amended: a mount/copy step that succeeds has made exactly these calls, in
  this order, so exactly four files are copied: \<open>linker64\<close> from the \<open>bin\<close> directory
  of the extracted APEX module into \<open><dst>/system/bin\<close>, and \<open>libc.so\<close>,
  \<open>libm.so\<close>, \<open>libdl.so\<close> from its \<open>lib64/bionic\<close> directory into
  \<open><dst>/system/lib64\<close>, where \<open><dst>\<close> is the output directory
  \<open><dir>/android-<api>_r<rev>/<abi>\<close> that \<open>main\<close> passes. The four sources are
  files of the file system \<open>fa\<close> in which \<open>deapexer\<close> returned. Provided the
  temporary directory is not above \<open><dst>/system\<close> and the unmount command leaves the
  files below \<open><dst>/system\<close> as they are, the four files
  \<open><dst>/system/bin/linker64\<close> and \<open><dst>/system/lib64/{libc.so,libm.so,libdl.so}\<close>
  are in the file system when the step returns, each with the content of its source in
  \<open>fa\<close>.
\<close>

theorem C4_copies_go_below_system:
  assumes "mount_img_and_copy E img dst s = (Inr (), s')"
  shows "\<exists>tmp fb fa.
           trace s' = trace s @
             (if isdir (fsys s) (join dst [''mount'']) then [] else [Makedirs (join dst [''mount''])]) @
             [Run (mount_argv img (join dst [''mount''])),
              Makedirs (join dst [''linkerconfig'']),
              Touch (join dst [''linkerconfig'', ''ld.config.txt'']),
              Mkdtemp tmp,
              Deapex (join dst [''mount'', ''system'', ''apex'', ''com.android.runtime.apex'']) tmp,
              Makedirs (join dst [''system'', ''bin'']),
              Copy2 (join tmp [''bin'', ''linker64'']) (join dst [''system'', ''bin'']),
              Makedirs (join dst [''system'', ''lib64'']),
              Copy2 (join tmp [''lib64'', ''bionic'', ''libc.so'']) (join dst [''system'', ''lib64'']),
              Copy2 (join tmp [''lib64'', ''bionic'', ''libm.so'']) (join dst [''system'', ''lib64'']),
              Copy2 (join tmp [''lib64'', ''bionic'', ''libdl.so'']) (join dst [''system'', ''lib64'']),
              Rmtree tmp,
              Run (umount_argv (join dst [''mount'']))] @
             (if isdir (fsys s) (join dst [''mount'']) then [] else [Rmdir (join dst [''mount''])])
         \<and> RunExtract E (join dst [''mount'', ''system'', ''apex'', ''com.android.runtime.apex''])
               tmp fb = (None, fa)
         \<and> isfile fa (join tmp [''bin'', ''linker64''])
         \<and> isfile fa (join tmp [''lib64'', ''bionic'', ''libc.so''])
         \<and> isfile fa (join tmp [''lib64'', ''bionic'', ''libm.so''])
         \<and> isfile fa (join tmp [''lib64'', ''bionic'', ''libdl.so''])
         \<and> ((\<forall>f p. below (join dst [''system'']) p \<longrightarrow> \<not> below (mkdtemp E f) p)
              \<and> (\<forall>f r f' p. subprocess_run E (umount_argv (join dst [''mount''])) None f = (r, f')
                              \<and> below (join dst [''system'']) p
                              \<longrightarrow> content f' p = content f p)
              \<longrightarrow> content (fsys s') (join dst [''system'', ''bin'', ''linker64''])
                    = content fa (join tmp [''bin'', ''linker64''])
                \<and> content (fsys s') (join dst [''system'', ''lib64'', ''libc.so''])
                    = content fa (join tmp [''lib64'', ''bionic'', ''libc.so''])
                \<and> content (fsys s') (join dst [''system'', ''lib64'', ''libm.so''])
                    = content fa (join tmp [''lib64'', ''bionic'', ''libm.so''])
                \<and> content (fsys s') (join dst [''system'', ''lib64'', ''libdl.so''])
                    = content fa (join tmp [''lib64'', ''bionic'', ''libdl.so'']))"
proof -
  let ?t = "join dst [''mount'']"
  let ?sys = "join dst [''system'']"
  let ?mkdir = "\<not> isdir (fsys s) ?t"
  let ?apex = "join ?t [''system'', ''apex'', ''com.android.runtime.apex'']"
  let ?t1 = "join dst [''system'', ''bin'', ''linker64'']"
  let ?t2 = "join dst [''system'', ''lib64'', ''libc.so'']"
  let ?t3 = "join dst [''system'', ''lib64'', ''libm.so'']"
  let ?t4 = "join dst [''system'', ''lib64'', ''libdl.so'']"
  from assms obtain s1 u where
    a: "mount_try E img dst ?t ?mkdir s = (Inr (), s1)" and
    b: "mount_finally E ?t ?mkdir s1 = (Inr u, s')"
    unfolding mount_img_and_copy_def Let_def by (elim try_finally_Inr) blast
  from mount_try_files [OF a] obtain s2 where
    d: "extract_apex_and_copy E ?apex ?sys s2 = (Inr (), s1)" and
    t2: "trace s2 = trace s @ (if ?mkdir then [Makedirs ?t] else []) @
           [Run (mount_argv img ?t), Makedirs (join dst [''linkerconfig'']),
            Touch (join dst [''linkerconfig'', ''ld.config.txt''])]"
    by blast
  from extract_apex_and_copy_ok [OF d] obtain tmp fb fa x1 x2 x3 x4 where
    t1: "trace s1 = trace s2 @
             [Mkdtemp tmp, Deapex ?apex tmp,
              Makedirs (join ?sys [''bin'']),
              Copy2 (join tmp [''bin'', ''linker64'']) (join ?sys [''bin'']),
              Makedirs (join ?sys [''lib64'']),
              Copy2 (join tmp [''lib64'', ''bionic'', ''libc.so'']) (join ?sys [''lib64'']),
              Copy2 (join tmp [''lib64'', ''bionic'', ''libm.so'']) (join ?sys [''lib64'']),
              Copy2 (join tmp [''lib64'', ''bionic'', ''libdl.so'']) (join ?sys [''lib64'']),
              Rmtree tmp]" and
    ex: "RunExtract E ?apex tmp fb = (None, fa)" and
    c1: "content fa (join tmp [''bin'', ''linker64'']) = Some x1" and
    c2: "content fa (join tmp [''lib64'', ''bionic'', ''libc.so'']) = Some x2" and
    c3: "content fa (join tmp [''lib64'', ''bionic'', ''libm.so'']) = Some x3" and
    c4: "content fa (join tmp [''lib64'', ''bionic'', ''libdl.so'']) = Some x4" and
    f1: "files (fsys s1) =
           filter (\<lambda>(q, d). \<not> below tmp q)
             ([(join ?sys [''lib64'', ''libdl.so''], x4),
               (join ?sys [''lib64'', ''libm.so''], x3),
               (join ?sys [''lib64'', ''libc.so''], x2),
               (join ?sys [''bin'', ''linker64''], x1)] @ files fa)" and
    tmp: "tmp = mkdtemp E (fsys s2)"
    by (elim exE conjE) (rule that)
  have js: "join ?sys [''bin'', ''linker64''] = ?t1" "join ?sys [''lib64'', ''libc.so''] = ?t2"
    "join ?sys [''lib64'', ''libm.so''] = ?t3" "join ?sys [''lib64'', ''libdl.so''] = ?t4"
    "join ?sys [''bin''] = join dst [''system'', ''bin'']"
    "join ?sys [''lib64''] = join dst [''system'', ''lib64'']"
    "?apex = join dst [''mount'', ''system'', ''apex'', ''com.android.runtime.apex'']"
    by (simp_all add: join_def)
  have tr: "trace s' = trace s @
             (if isdir (fsys s) ?t then [] else [Makedirs ?t]) @
             [Run (mount_argv img ?t),
              Makedirs (join dst [''linkerconfig'']),
              Touch (join dst [''linkerconfig'', ''ld.config.txt'']),
              Mkdtemp tmp,
              Deapex (join dst [''mount'', ''system'', ''apex'', ''com.android.runtime.apex'']) tmp,
              Makedirs (join dst [''system'', ''bin'']),
              Copy2 (join tmp [''bin'', ''linker64'']) (join dst [''system'', ''bin'']),
              Makedirs (join dst [''system'', ''lib64'']),
              Copy2 (join tmp [''lib64'', ''bionic'', ''libc.so'']) (join dst [''system'', ''lib64'']),
              Copy2 (join tmp [''lib64'', ''bionic'', ''libm.so'']) (join dst [''system'', ''lib64'']),
              Copy2 (join tmp [''lib64'', ''bionic'', ''libdl.so'']) (join dst [''system'', ''lib64'']),
              Rmtree tmp,
              Run (umount_argv ?t)] @
             (if isdir (fsys s) ?t then [] else [Rmdir ?t])"
    using mount_finally_Inr [OF b] t1 t2 by (auto simp: js)
  have ex': "RunExtract E (join dst [''mount'', ''system'', ''apex'', ''com.android.runtime.apex''])
               tmp fb = (None, fa)"
    using ex by (simp add: js)
  have src: "isfile fa (join tmp [''bin'', ''linker64''])"
    "isfile fa (join tmp [''lib64'', ''bionic'', ''libc.so''])"
    "isfile fa (join tmp [''lib64'', ''bionic'', ''libm.so''])"
    "isfile fa (join tmp [''lib64'', ''bionic'', ''libdl.so''])"
    using c1 c2 c3 c4 by (simp_all add: isfile_def content_def)
  have fin: "content (fsys s') ?t1 = content fa (join tmp [''bin'', ''linker64''])
           \<and> content (fsys s') ?t2 = content fa (join tmp [''lib64'', ''bionic'', ''libc.so''])
           \<and> content (fsys s') ?t3 = content fa (join tmp [''lib64'', ''bionic'', ''libm.so''])
           \<and> content (fsys s') ?t4 = content fa (join tmp [''lib64'', ''bionic'', ''libdl.so''])"
    if h1: "\<forall>f p. below ?sys p \<longrightarrow> \<not> below (mkdtemp E f) p"
    and h2: "\<forall>f r f' p. subprocess_run E (umount_argv ?t) None f = (r, f') \<and> below ?sys p
                          \<longrightarrow> content f' p = content f p"
  proof -
    from mount_finally_files [OF b] obtain rc f' where
      um: "subprocess_run E (umount_argv ?t) None (fsys s1) = (Inr rc, f')" and
      ff: "files (fsys s') = files f'"
      by blast
    have keep: "content (fsys s') p = content (fsys s1) p" if "below ?sys p" for p
      using h2 um that ff by (metis content_def)
    have nb: "\<not> below tmp p" if "below ?sys p" for p
      using h1 that tmp by blast
    have ne: "a \<noteq> b" if "take 4 (rev a) \<noteq> take 4 (rev b)" for a b :: string
      using that by auto
    have dist: "?t1 \<noteq> ?t2" "?t1 \<noteq> ?t3" "?t1 \<noteq> ?t4" "?t2 \<noteq> ?t3" "?t2 \<noteq> ?t4" "?t3 \<noteq> ?t4"
      by (rule ne, simp add: target_tails)+
    have all: "content (fsys s1) p =
                 map_of ([(?t4, x4), (?t3, x3), (?t2, x2), (?t1, x1)] @ files fa) p"
      if "below ?sys p" for p
    proof -
      have "files (fsys s1) =
              filter (\<lambda>(q, d). \<not> below tmp q)
                ([(?t4, x4), (?t3, x3), (?t2, x2), (?t1, x1)] @ files fa)"
        using f1 unfolding js .
      then show ?thesis
        unfolding content_def by (simp only: content_rmtree [OF nb [OF that]])
    qed
    show ?thesis
      using keep [OF below_system(1)] keep [OF below_system(2)] keep [OF below_system(3)]
        keep [OF below_system(4)] all [OF below_system(1)] all [OF below_system(2)]
        all [OF below_system(3)] all [OF below_system(4)] dist c1 c2 c3 c4
      by simp
  qed
  have cond: "(\<forall>f p. below ?sys p \<longrightarrow> \<not> below (mkdtemp E f) p)
              \<and> (\<forall>f r f' p. subprocess_run E (umount_argv ?t) None f = (r, f') \<and> below ?sys p
                              \<longrightarrow> content f' p = content f p)
              \<longrightarrow> content (fsys s') ?t1 = content fa (join tmp [''bin'', ''linker64''])
                \<and> content (fsys s') ?t2 = content fa (join tmp [''lib64'', ''bionic'', ''libc.so''])
                \<and> content (fsys s') ?t3 = content fa (join tmp [''lib64'', ''bionic'', ''libm.so''])
                \<and> content (fsys s') ?t4 = content fa (join tmp [''lib64'', ''bionic'', ''libdl.so''])"
    using fin by blast
  show ?thesis
    by (rule exI [of _ tmp], rule exI [of _ fb], rule exI [of _ fa])
       (intro conjI tr ex' src cond)
qed

theorem C4_copies_go_below_system_witness:
  "fst (mount_img_and_copy sample_env ''/img/system.img'' ''/out'' sample_state) = Inr ()
   \<and> (\<exists>tmp fb fa.
         trace (snd (mount_img_and_copy sample_env ''/img/system.img'' ''/out'' sample_state)) =
           [Makedirs ''/out/mount'',
            Run (mount_argv ''/img/system.img'' ''/out/mount''),
            Makedirs ''/out/linkerconfig'',
            Touch ''/out/linkerconfig/ld.config.txt'',
            Mkdtemp tmp,
            Deapex ''/out/mount/system/apex/com.android.runtime.apex'' tmp,
            Makedirs ''/out/system/bin'',
            Copy2 (join tmp [''bin'', ''linker64'']) ''/out/system/bin'',
            Makedirs ''/out/system/lib64'',
            Copy2 (join tmp [''lib64'', ''bionic'', ''libc.so'']) ''/out/system/lib64'',
            Copy2 (join tmp [''lib64'', ''bionic'', ''libm.so'']) ''/out/system/lib64'',
            Copy2 (join tmp [''lib64'', ''bionic'', ''libdl.so'']) ''/out/system/lib64'',
            Rmtree tmp,
            Run (umount_argv ''/out/mount''),
            Rmdir ''/out/mount'']
       \<and> RunExtract sample_env ''/out/mount/system/apex/com.android.runtime.apex'' tmp fb = (None, fa)
       \<and> isfile fa (join tmp [''bin'', ''linker64''])
       \<and> content (fsys (snd (mount_img_and_copy sample_env ''/img/system.img'' ''/out'' sample_state)))
            ''/out/system/bin/linker64'' = content fa (join tmp [''bin'', ''linker64''])
       \<and> content (fsys (snd (mount_img_and_copy sample_env ''/img/system.img'' ''/out'' sample_state)))
            ''/out/system/lib64/libc.so'' = content fa (join tmp [''lib64'', ''bionic'', ''libc.so''])
       \<and> content (fsys (snd (mount_img_and_copy sample_env ''/img/system.img'' ''/out'' sample_state)))
            ''/out/system/lib64/libm.so'' = content fa (join tmp [''lib64'', ''bionic'', ''libm.so''])
       \<and> content (fsys (snd (mount_img_and_copy sample_env ''/img/system.img'' ''/out'' sample_state)))
            ''/out/system/lib64/libdl.so'' = content fa (join tmp [''lib64'', ''bionic'', ''libdl.so'']))
   \<and> content (fsys (snd (mount_img_and_copy sample_env ''/img/system.img'' ''/out'' sample_state)))
        ''/out/system/bin/linker64'' = Some (Bytes ''L'')
   \<and> content (fsys (snd (mount_img_and_copy sample_env ''/img/system.img'' ''/out'' sample_state)))
        ''/out/system/lib64/libdl.so'' = Some (Bytes ''D'')"
proof -
  let ?M = "mount_img_and_copy sample_env ''/img/system.img'' ''/out'' sample_state"
  have h: "?M = (Inr (), snd ?M)" by (simp add: sample_step)
  have j: "join ''/out'' [''mount''] = ''/out/mount''"
    "join ''/out'' [''system''] = ''/out/system''"
    "join ''/out'' [''linkerconfig''] = ''/out/linkerconfig''"
    "join ''/out'' [''linkerconfig'', ''ld.config.txt''] = ''/out/linkerconfig/ld.config.txt''"
    "join ''/out'' [''mount'', ''system'', ''apex'', ''com.android.runtime.apex'']
       = ''/out/mount/system/apex/com.android.runtime.apex''"
    "join ''/out'' [''system'', ''bin''] = ''/out/system/bin''"
    "join ''/out'' [''system'', ''lib64''] = ''/out/system/lib64''"
    "join ''/out'' [''system'', ''bin'', ''linker64''] = ''/out/system/bin/linker64''"
    "join ''/out'' [''system'', ''lib64'', ''libc.so''] = ''/out/system/lib64/libc.so''"
    "join ''/out'' [''system'', ''lib64'', ''libm.so''] = ''/out/system/lib64/libm.so''"
    "join ''/out'' [''system'', ''lib64'', ''libdl.so''] = ''/out/system/lib64/libdl.so''"
    by (simp_all add: join_def join2_def)
  have d: "\<not> isdir (fsys sample_state) ''/out/mount''" "trace sample_state = []"
    by (simp_all add: isdir_def sample_state_def sample_fs_def)
  have h1: "\<forall>f p. below (join ''/out'' [''system'']) p \<longrightarrow> \<not> below (mkdtemp sample_env f) p"
    unfolding j using sample_tmp_apart by blast
  have h2: "\<forall>f r f' p. subprocess_run sample_env (umount_argv (join ''/out'' [''mount''])) None f = (r, f')
                   \<and> below (join ''/out'' [''system'']) p
                   \<longrightarrow> content f' p = content f p"
    unfolding j using sample_umount_keeps by blast
  have f1: "fst ?M = Inr ()" by (simp add: sample_step)
  have v: "content (fsys (snd ?M)) ''/out/system/bin/linker64'' = Some (Bytes ''L'')"
    "content (fsys (snd ?M)) ''/out/system/lib64/libdl.so'' = Some (Bytes ''D'')"
    by (simp_all add: sample_step content_def)
  from C4_copies_go_below_system [OF h] h1 h2
  have "\<exists>tmp fb fa.
         trace (snd ?M) =
           [Makedirs ''/out/mount'',
            Run (mount_argv ''/img/system.img'' ''/out/mount''),
            Makedirs ''/out/linkerconfig'',
            Touch ''/out/linkerconfig/ld.config.txt'',
            Mkdtemp tmp,
            Deapex ''/out/mount/system/apex/com.android.runtime.apex'' tmp,
            Makedirs ''/out/system/bin'',
            Copy2 (join tmp [''bin'', ''linker64'']) ''/out/system/bin'',
            Makedirs ''/out/system/lib64'',
            Copy2 (join tmp [''lib64'', ''bionic'', ''libc.so'']) ''/out/system/lib64'',
            Copy2 (join tmp [''lib64'', ''bionic'', ''libm.so'']) ''/out/system/lib64'',
            Copy2 (join tmp [''lib64'', ''bionic'', ''libdl.so'']) ''/out/system/lib64'',
            Rmtree tmp,
            Run (umount_argv ''/out/mount''),
            Rmdir ''/out/mount'']
       \<and> RunExtract sample_env ''/out/mount/system/apex/com.android.runtime.apex'' tmp fb = (None, fa)
       \<and> isfile fa (join tmp [''bin'', ''linker64''])
       \<and> content (fsys (snd ?M)) ''/out/system/bin/linker64'' = content fa (join tmp [''bin'', ''linker64''])
       \<and> content (fsys (snd ?M)) ''/out/system/lib64/libc.so''
           = content fa (join tmp [''lib64'', ''bionic'', ''libc.so''])
       \<and> content (fsys (snd ?M)) ''/out/system/lib64/libm.so''
           = content fa (join tmp [''lib64'', ''bionic'', ''libm.so''])
       \<and> content (fsys (snd ?M)) ''/out/system/lib64/libdl.so''
           = content fa (join tmp [''lib64'', ''bionic'', ''libdl.so''])"
    unfolding j by (elim exE conjE, intro exI conjI) (simp_all add: d)
  then show ?thesis using f1 v by (intro conjI)
qed

text \<open>
  Claim C5, as the specification has it, fails: on a machine without \<open>sudo\<close> the
  step makes the mount directory, neither \<open>subprocess.run\<close> can start its command,
  the exception of the second one leaves the \<open>finally\<close> block before \<open>os.rmdir\<close>,
  and the directory that the tool created is still there.
\<close>

theorem C5_created_directory_left_counterexample:
  "\<not> isdir (fsys sample_state) ''/out/mount''
   \<and> mount_img_and_copy no_sudo_env ''/img/system.img'' ''/out'' sample_state
       = (Inl FileNotFoundError,
          \<lparr>fsys = sample_fs\<lparr>dirs := ''/out/mount'' # dirs sample_fs\<rparr>,
           trace = [Makedirs ''/out/mount'',
                    Run (mount_argv ''/img/system.img'' ''/out/mount''),
                    Run (umount_argv ''/out/mount'')]\<rparr>)"
  by (simp add: mount_img_and_copy_def Let_def try_finally_def mount_try_def mount_finally_def
      seq_def run_def os_makedirs_def fs_step_def fs_makedirs_def emit_def isdir_def isfile_def
      join_def join2_def ancestors_def no_sudo_env_def sample_env_def sample_state_def sample_fs_def)

text \<open>
  Claim C5, amended: on every exit path of the mount/copy step, a copy failure whose
  exception propagates included, an unmount of the mount point is attempted after the
  body of the step, and nothing follows it but, at most, the removal of the mount
  directory. That removal is attempted only if the directory did not exist when the step
  began; provided the unmount command can be started (whatever its exit status) it is
  attempted exactly in that case; and when the step returns normally, a directory that
  the tool created has been removed.
\<close>

theorem C5_unmount_on_every_exit:
  assumes "mount_img_and_copy E img dst s = (r, s')"
  shows "\<exists>pre post.
           trace s' = trace s @ pre @ Run (umount_argv (join dst [''mount''])) # post
           \<and> (post = [] \<or> post = [Rmdir (join dst [''mount''])] \<and> \<not> isdir (fsys s) (join dst [''mount'']))
           \<and> ((\<forall>f. \<exists>rc f'. subprocess_run E (umount_argv (join dst [''mount''])) None f = (Inr rc, f'))
                \<longrightarrow> post = (if isdir (fsys s) (join dst [''mount'']) then []
                            else [Rmdir (join dst [''mount''])]))
           \<and> (r = Inr () \<and> \<not> isdir (fsys s) (join dst [''mount''])
                \<longrightarrow> \<not> isdir (fsys s') (join dst [''mount'']))"
proof -
  let ?t = "join dst [''mount'']"
  let ?mkdir = "\<not> isdir (fsys s) ?t"
  obtain r1 s1 where tr: "mount_try E img dst ?t ?mkdir s = (r1, s1)"
    by (cases "mount_try E img dst ?t ?mkdir s")
  obtain pre where pre: "trace s1 = trace s @ pre"
    using extends_mount_try [of E img dst ?t ?mkdir] tr unfolding extends_def
    by (metis snd_conv)
  obtain ru f2 where um: "subprocess_run E (umount_argv ?t) None (fsys s1) = (ru, f2)"
    by (cases "subprocess_run E (umount_argv ?t) None (fsys s1)")
  let ?s2 = "emit (Run (umount_argv ?t)) (s1\<lparr>fsys := f2\<rparr>)"
  have whole: "mount_img_and_copy E img dst s
                 = (case mount_finally E ?t ?mkdir s1 of
                      (Inl e, s2) \<Rightarrow> (Inl e, s2) | (Inr u, s2) \<Rightarrow> (r1, s2))"
    using tr by (simp add: mount_img_and_copy_def Let_def try_finally_def)
  show ?thesis
  proof (cases ru)
    case (Inl e)
    then have "mount_finally E ?t ?mkdir s1 = (Inl e, ?s2)"
      using um by (simp add: mount_finally_def seq_def run_def)
    then have "s' = ?s2" using whole assms by simp
    then have "trace s' = trace s @ pre @ Run (umount_argv ?t) # []"
      using pre by (simp add: emit_def)
    moreover have "\<not> (\<forall>f. \<exists>rc f'. subprocess_run E (umount_argv ?t) None f = (Inr rc, f'))"
      using um Inl by (metis Inl_Inr_False fst_conv)
    moreover have "r = Inl e"
      using whole assms \<open>mount_finally E ?t ?mkdir s1 = (Inl e, ?s2)\<close> by simp
    ultimately show ?thesis by blast
  next
    case (Inr rc)
    show ?thesis
    proof (cases ?mkdir)
      case False
      then have "mount_finally E ?t ?mkdir s1 = (Inr (), ?s2)"
        using um Inr by (simp add: mount_finally_def seq_def run_def ret_def)
      then have "s' = ?s2" using whole assms by simp
      then have "trace s' = trace s @ pre @ Run (umount_argv ?t) # []"
        using pre by (simp add: emit_def)
      then show ?thesis using False by auto
    next
      case True
      have fin: "mount_finally E ?t ?mkdir s1 = os_rmdir ?t ?s2"
        using um Inr True by (simp add: mount_finally_def seq_def run_def)
      show ?thesis
      proof (cases "fs_rmdir ?t f2")
        case (Inl e)
        then have "mount_finally E ?t ?mkdir s1 = (Inl e, emit (Rmdir ?t) ?s2)"
          using fin by (simp add: os_rmdir_def fs_step_def emit_def)
        then have "s' = emit (Rmdir ?t) ?s2" and "r = Inl e" using whole assms by simp_all
        then have "trace s' = trace s @ pre @ Run (umount_argv ?t) # [Rmdir ?t]"
          using pre by (simp add: emit_def)
        then show ?thesis using True \<open>r = Inl e\<close> by auto
      next
        case (Inr f3)
        then have "mount_finally E ?t ?mkdir s1 = (Inr (), emit (Rmdir ?t) (?s2\<lparr>fsys := f3\<rparr>))"
          using fin by (simp add: os_rmdir_def fs_step_def emit_def)
        then have s': "s' = emit (Rmdir ?t) (?s2\<lparr>fsys := f3\<rparr>)" using whole assms by simp
        then have "trace s' = trace s @ pre @ Run (umount_argv ?t) # [Rmdir ?t]"
          using pre by (simp add: emit_def)
        moreover have "\<not> isdir (fsys s') ?t"
          using rmdir_gone [OF Inr] s' by (simp add: emit_def)
        ultimately show ?thesis using True by auto
      qed
    qed
  qed
qed

theorem C5_unmount_on_every_exit_witness:
  "fst (mount_img_and_copy sample_env ''/img/system.img'' ''/out'' broken_state) = Inl FileNotFoundError
   \<and> \<not> isdir (fsys broken_state) ''/out/mount''
   \<and> (\<exists>pre. trace (snd (mount_img_and_copy sample_env ''/img/system.img'' ''/out'' broken_state))
              = trace broken_state @ pre @ [Run (umount_argv ''/out/mount''), Rmdir ''/out/mount''])
   \<and> fst (mount_img_and_copy sample_env ''/img/system.img'' ''/out'' sample_state) = Inr ()
   \<and> \<not> isdir (fsys sample_state) ''/out/mount''
   \<and> \<not> isdir (fsys (snd (mount_img_and_copy sample_env ''/img/system.img'' ''/out'' sample_state)))
          ''/out/mount''"
proof -
  let ?B = "mount_img_and_copy sample_env ''/img/system.img'' ''/out'' broken_state"
  let ?S = "mount_img_and_copy sample_env ''/img/system.img'' ''/out'' sample_state"
  have j: "join ''/out'' [''mount''] = ''/out/mount''" by (simp add: join_def join2_def)
  have b: "?B = (Inl FileNotFoundError, snd ?B)" by (simp add: broken_step)
  have s: "?S = (Inr (), snd ?S)" by (simp add: sample_step)
  have db: "\<not> isdir (fsys broken_state) ''/out/mount''"
    by (simp add: isdir_def broken_state_def)
  have ds: "\<not> isdir (fsys sample_state) ''/out/mount''"
    by (simp add: isdir_def sample_state_def sample_fs_def)
  have u: "\<forall>f. \<exists>rc f'. subprocess_run sample_env (umount_argv ''/out/mount'') None f = (Inr rc, f')"
    by (rule sample_umount_returns)
  have "\<exists>pre. trace (snd ?B) = trace broken_state @ pre @ [Run (umount_argv ''/out/mount''), Rmdir ''/out/mount'']"
    using C5_unmount_on_every_exit [OF b] u db unfolding j by auto
  moreover have "\<not> isdir (fsys (snd ?S)) ''/out/mount''"
    using C5_unmount_on_every_exit [OF s] ds unfolding j by auto
  moreover have "fst ?B = Inl FileNotFoundError" by (simp add: broken_step)
  moreover have "fst ?S = Inr ()" by (simp add: sample_step)
  ultimately show ?thesis using db ds by simp
qed

text \<open>
  Claim C10: the exit status of the mount command is not checked. Let the mount
  directory exist or be made, let the mount command return any status \<open>rc\<close>, zero or
  not, and let the directory \<open>linkerconfig\<close>, the file \<open>ld.config.txt\<close> and a
  temporary directory be creatable afterwards: then the step goes on, creates
  \<open>linkerconfig/ld.config.txt\<close> and calls the APEX extraction on the module path
  below the mount directory. Moreover the whole step, result and final state, is the same
  on the machine whose commands all report the status \<open>c\<close>: neither the status of
  \<open>mount\<close> nor that of \<open>umount\<close> is looked at.
\<close>

theorem C10_exit_status_ignored:
  assumes "if isdir (fsys s) (join dst [''mount'']) then f0 = fsys s
           else fs_makedirs False (join dst [''mount'']) (fsys s) = Inr f0"
    and "subprocess_run E (mount_argv img (join dst [''mount''])) None f0 = (Inr rc, f1)"
    and "fs_makedirs True (join dst [''linkerconfig'']) f1 = Inr f2"
    and "fs_touch (join dst [''linkerconfig'', ''ld.config.txt'']) f2 = Inr f3"
    and "fs_mkdir (mkdtemp E f3) f3 = Inr f4"
  shows "(\<exists>post. trace (snd (mount_img_and_copy E img dst s)) = trace s @
            (if isdir (fsys s) (join dst [''mount'']) then [] else [Makedirs (join dst [''mount''])]) @
            [Run (mount_argv img (join dst [''mount''])),
             Makedirs (join dst [''linkerconfig'']),
             Touch (join dst [''linkerconfig'', ''ld.config.txt'']),
             Mkdtemp (mkdtemp E f3),
             Deapex (join dst [''mount'', ''system'', ''apex'', ''com.android.runtime.apex''])
               (mkdtemp E f3)] @ post)
         \<and> mount_img_and_copy (with_status c E) img dst s = mount_img_and_copy E img dst s"
proof
  let ?t = "join dst [''mount'']"
  let ?mkdir = "\<not> isdir (fsys s) ?t"
  let ?lc = "join dst [''linkerconfig'']"
  let ?ld = "join dst [''linkerconfig'', ''ld.config.txt'']"
  let ?apex = "join ?t [''system'', ''apex'', ''com.android.runtime.apex'']"
  let ?pre = "if isdir (fsys s) ?t then [] else [Makedirs ?t]"
  let ?s0 = "s\<lparr>fsys := f0, trace := trace s @ ?pre\<rparr>"
  let ?s1 = "?s0\<lparr>fsys := f1, trace := trace ?s0 @ [Run (mount_argv img ?t)]\<rparr>"
  let ?s3 = "?s1\<lparr>fsys := f3, trace := trace ?s1 @ [Makedirs ?lc, Touch ?ld]\<rparr>"
  have a: "(if ?mkdir then os_makedirs False ?t else ret ()) s = (Inr (), ?s0)"
    using assms(1) by (auto simp: os_makedirs_def fs_step_def emit_def ret_def)
  have b: "run E (mount_argv img ?t) None ?s0 = (Inr rc, ?s1)"
    using assms(2) by (simp add: run_def emit_def)
  have ld: "join ?lc [''ld.config.txt''] = ?ld" by (simp add: join_def)
  have c: "copy_from_img ?t dst ?s1 = (Inr (), ?s3)"
    using assms(3,4)
    by (simp add: copy_from_img_def Let_def ld seq_def os_makedirs_def fs_step_def emit_def)
  have d: "starts (extract_apex_and_copy E ?apex (join dst [''system''])) ?s3
             [Mkdtemp (mkdtemp E f3), Deapex ?apex (mkdtemp E f3)]"
    using starts_extract_apex_and_copy [of E ?s3 f4 ?apex] assms(5) by simp
  let ?k3 = "\<lambda>u::unit. extract_apex_and_copy E ?apex (join dst [''system''])"
  let ?k2 = "\<lambda>rc::int. seq (copy_from_img ?t dst) ?k3"
  let ?k1 = "\<lambda>u::unit. seq (run E (mount_argv img ?t) None) ?k2"
  let ?e3 = "[Mkdtemp (mkdtemp E f3), Deapex ?apex (mkdtemp E f3)]"
  let ?e2 = "[Makedirs ?lc, Touch ?ld] @ ?e3"
  let ?e1 = "[Run (mount_argv img ?t)] @ ?e2"
  have "starts (?k2 rc) ?s1 ?e2"
    using starts_seq [of "copy_from_img ?t dst" ?s1 "()" ?s3 "[Makedirs ?lc, Touch ?ld]" ?k3 ?e3]
      c d by simp
  then have "starts (?k1 ()) ?s0 ?e1"
    using starts_seq [of "run E (mount_argv img ?t) None" ?s0 rc ?s1
                         "[Run (mount_argv img ?t)]" ?k2 ?e2] b by simp
  then have "starts (seq (if ?mkdir then os_makedirs False ?t else ret ()) ?k1) s (?pre @ ?e1)"
    using starts_seq [of "if ?mkdir then os_makedirs False ?t else ret ()" s "()" ?s0 ?pre ?k1 ?e1]
      a by simp
  then have "starts (mount_try E img dst ?t ?mkdir) s
          (?pre @ [Run (mount_argv img ?t)] @ [Makedirs ?lc, Touch ?ld]
            @ [Mkdtemp (mkdtemp E f3), Deapex ?apex (mkdtemp E f3)])"
    by (simp add: mount_try_def)
  then have "starts (try_finally (mount_try E img dst ?t ?mkdir) (mount_finally E ?t ?mkdir)) s
          (?pre @ [Run (mount_argv img ?t)] @ [Makedirs ?lc, Touch ?ld]
            @ [Mkdtemp (mkdtemp E f3), Deapex ?apex (mkdtemp E f3)])"
    using extends_mount_finally by (rule starts_try_finally)
  then show "\<exists>post. trace (snd (mount_img_and_copy E img dst s)) = trace s @
            (if isdir (fsys s) ?t then [] else [Makedirs ?t]) @
            [Run (mount_argv img ?t), Makedirs ?lc, Touch ?ld, Mkdtemp (mkdtemp E f3),
             Deapex (join dst [''mount'', ''system'', ''apex'', ''com.android.runtime.apex''])
               (mkdtemp E f3)] @ post"
    by (simp add: starts_def mount_img_and_copy_def Let_def join_def)
next
  show "mount_img_and_copy (with_status c E) img dst s = mount_img_and_copy E img dst s"
    by (simp add: mount_img_and_copy_def mount_try_with_status mount_finally_with_status)
qed

theorem C10_exit_status_ignored_witness:
  "subprocess_run sample_env (mount_argv ''/img/system.img'' ''/out/mount'') None
     \<lparr>files = [(''/img/system.img'', Bytes ''raw'')],
      dirs = [''/out/mount'', ''/'', ''/tmp'', ''/img'', ''/out'']\<rparr>
     = (Inr 32, \<lparr>files = [(''/img/system.img'', Bytes ''raw'')],
                 dirs = [''/out/mount'', ''/'', ''/tmp'', ''/img'', ''/out'']\<rparr>)
   \<and> (\<exists>post. trace (snd (mount_img_and_copy sample_env ''/img/system.img'' ''/out'' unmountable_state)) =
          [Makedirs ''/out/mount'',
           Run (mount_argv ''/img/system.img'' ''/out/mount''),
           Makedirs ''/out/linkerconfig'',
           Touch ''/out/linkerconfig/ld.config.txt'',
           Mkdtemp ''/tmp/tmp0'',
           Deapex ''/out/mount/system/apex/com.android.runtime.apex'' ''/tmp/tmp0''] @ post)
   \<and> mount_img_and_copy (with_status 0 sample_env) ''/img/system.img'' ''/out'' unmountable_state
       = mount_img_and_copy sample_env ''/img/system.img'' ''/out'' unmountable_state"
proof -
  let ?f0 = "\<lparr>files = [(''/img/system.img'', Bytes ''raw'')],
               dirs = [''/out/mount'', ''/'', ''/tmp'', ''/img'', ''/out'']\<rparr>"
  let ?f2 = "\<lparr>files = [(''/img/system.img'', Bytes ''raw'')],
               dirs = [''/out/linkerconfig'', ''/out/mount'', ''/'', ''/tmp'', ''/img'', ''/out'']\<rparr>"
  let ?f3 = "\<lparr>files = [(''/out/linkerconfig/ld.config.txt'', Bytes []),
                        (''/img/system.img'', Bytes ''raw'')],
               dirs = [''/out/linkerconfig'', ''/out/mount'', ''/'', ''/tmp'', ''/img'', ''/out'']\<rparr>"
  let ?f4 = "\<lparr>files = [(''/out/linkerconfig/ld.config.txt'', Bytes []),
                        (''/img/system.img'', Bytes ''raw'')],
               dirs = [''/tmp/tmp0'', ''/out/linkerconfig'', ''/out/mount'', ''/'', ''/tmp'',
                       ''/img'', ''/out'']\<rparr>"
  have j: "join ''/out'' [''mount''] = ''/out/mount''"
    "join ''/out'' [''linkerconfig''] = ''/out/linkerconfig''"
    "join ''/out'' [''linkerconfig'', ''ld.config.txt''] = ''/out/linkerconfig/ld.config.txt''"
    "join ''/out'' [''mount'', ''system'', ''apex'', ''com.android.runtime.apex'']
       = ''/out/mount/system/apex/com.android.runtime.apex''"
    by (simp_all add: join_def join2_def)
  have t: "mkdtemp sample_env ?f3 = ''/tmp/tmp0''" by (simp add: sample_env_def)
  have d: "\<not> isdir (fsys unmountable_state) ''/out/mount''" "trace unmountable_state = []"
    by (simp_all add: isdir_def unmountable_state_def)
  have a0: "if isdir (fsys unmountable_state) (join ''/out'' [''mount'']) then ?f0 = fsys unmountable_state
            else fs_makedirs False (join ''/out'' [''mount'']) (fsys unmountable_state) = Inr ?f0"
    by (simp add: j fs_makedirs_def isdir_def isfile_def ancestors_def unmountable_state_def)
  have a1: "subprocess_run sample_env (mount_argv ''/img/system.img'' (join ''/out'' [''mount''])) None ?f0
              = (Inr 32, ?f0)"
    by (simp add: j sample_env_def sample_run_def mount_argv_def)
  have a2: "fs_makedirs True (join ''/out'' [''linkerconfig'']) ?f0 = Inr ?f2"
    by (simp add: j fs_makedirs_def isdir_def isfile_def ancestors_def)
  have a3: "fs_touch (join ''/out'' [''linkerconfig'', ''ld.config.txt'']) ?f2 = Inr ?f3"
    by (simp add: j fs_touch_def writable_def dirname_def ancestors_def isdir_def isfile_def)
  have a4: "fs_mkdir (mkdtemp sample_env ?f3) ?f3 = Inr ?f4"
    by (simp add: t fs_mkdir_def dirname_def ancestors_def isdir_def isfile_def)
  show ?thesis
    using C10_exit_status_ignored [OF a0 a1 a2 a3 a4, of 0] a1 by (simp add: j t d)
qed

end
